theory Spec2Isabelle
  imports Main
begin

section \<open>Dates\<close>

text \<open>
  A JavaScript \<open>Date\<close> is its time value: milliseconds since the epoch, UTC. The local
  fields (\<open>getDate\<close>, \<open>getMonth\<close>, \<open>setHours\<close>, \<open>setMonth\<close>, \<open>setDate\<close>) are read in the
  zone of the process. \<open>date-helpers.ts\<close> names that zone (Asia/Phnom_Penh); the model takes
  the zone's offset from UTC, \<open>tz\<close> milliseconds, as a parameter of every function that
  reads local fields, and covers zones whose offset does not change over the year.
  Invalid dates (NaN) are outside the model.
\<close>

type_synonym Date = int

definition msPerDay :: int where
  "msPerDay = 86400000"

definition tzPhnomPenh :: int where
  "tzPhnomPenh = 7 * 3600000"

definition LocalTime :: "int \<Rightarrow> Date \<Rightarrow> int" where
  "LocalTime tz t = t + tz"

definition Day :: "int \<Rightarrow> int" where
  "Day t = t div msPerDay"

definition TimeWithinDay :: "int \<Rightarrow> int" where
  "TimeWithinDay t = t mod msPerDay"

text \<open>
  The proleptic Gregorian calendar, by day number since 1970-01-01. Months are numbered
  from 0 as in JavaScript. \<open>doe\<close> is the day of a 400-year era that starts on 1 March,
  \<open>yoe\<close> the year of the era, \<open>doy\<close> the day of that March-based year, \<open>mp\<close> its month.
\<close>

definition yoe_of_doe :: "int \<Rightarrow> int" where
  "yoe_of_doe doe = (doe - doe div 1460 + doe div 36524 - doe div 146096) div 365"

definition doy_of_doe :: "int \<Rightarrow> int" where
  "doy_of_doe doe =
     doe - (365 * yoe_of_doe doe + yoe_of_doe doe div 4 - yoe_of_doe doe div 100)"

definition mp_of_doy :: "int \<Rightarrow> int" where
  "mp_of_doy doy = (5 * doy + 2) div 153"

definition civil_of_era_doe :: "int \<Rightarrow> int \<Rightarrow> int \<times> int \<times> int" where
  "civil_of_era_doe era doe =
     (if mp_of_doy (doy_of_doe doe) < 10
      then (yoe_of_doe doe + era * 400, mp_of_doy (doy_of_doe doe) + 2,
            doy_of_doe doe - (153 * mp_of_doy (doy_of_doe doe) + 2) div 5 + 1)
      else (yoe_of_doe doe + era * 400 + 1, mp_of_doy (doy_of_doe doe) - 10,
            doy_of_doe doe - (153 * mp_of_doy (doy_of_doe doe) + 2) div 5 + 1))"

definition civil_from_days :: "int \<Rightarrow> int \<times> int \<times> int" where
  "civil_from_days z =
     civil_of_era_doe ((z + 719468) div 146097) ((z + 719468) mod 146097)"

definition days_from_march_year :: "int \<Rightarrow> int \<Rightarrow> int \<Rightarrow> int" where
  "days_from_march_year y mp d =
     (y div 400) * 146097
       + ((y mod 400) * 365 + (y mod 400) div 4 - (y mod 400) div 100
          + ((153 * mp + 2) div 5 + d - 1))
       - 719468"

definition days_from_civil :: "int \<Rightarrow> int \<Rightarrow> int \<Rightarrow> int" where
  "days_from_civil y m d =
     (if m \<le> 1 then days_from_march_year (y - 1) (m + 10) d
      else days_from_march_year y (m - 2) d)"

definition YearFromTime :: "int \<Rightarrow> int" where
  "YearFromTime t = fst (civil_from_days (Day t))"

definition MonthFromTime :: "int \<Rightarrow> int" where
  "MonthFromTime t = fst (snd (civil_from_days (Day t)))"

definition DateFromTime :: "int \<Rightarrow> int" where
  "DateFromTime t = snd (snd (civil_from_days (Day t)))"

definition MakeDay :: "int \<Rightarrow> int \<Rightarrow> int \<Rightarrow> int" where
  "MakeDay year month date = days_from_civil (year + month div 12) (month mod 12) 1 + date - 1"

definition MakeDate :: "int \<Rightarrow> int \<Rightarrow> int" where
  "MakeDate day time = day * msPerDay + time"

definition getFullYear :: "int \<Rightarrow> Date \<Rightarrow> int" where
  "getFullYear tz t = YearFromTime (LocalTime tz t)"

definition getMonth :: "int \<Rightarrow> Date \<Rightarrow> int" where
  "getMonth tz t = MonthFromTime (LocalTime tz t)"

definition getDate :: "int \<Rightarrow> Date \<Rightarrow> int" where
  "getDate tz t = DateFromTime (LocalTime tz t)"

definition setMonth :: "int \<Rightarrow> Date \<Rightarrow> int \<Rightarrow> Date" where
  "setMonth tz t month =
     MakeDate (MakeDay (YearFromTime (LocalTime tz t)) month (DateFromTime (LocalTime tz t)))
              (TimeWithinDay (LocalTime tz t)) - tz"

definition setDate :: "int \<Rightarrow> Date \<Rightarrow> int \<Rightarrow> Date" where
  "setDate tz t date =
     MakeDate (MakeDay (YearFromTime (LocalTime tz t)) (MonthFromTime (LocalTime tz t)) date)
              (TimeWithinDay (LocalTime tz t)) - tz"

text \<open>\<open>d.setHours(0, 0, 0, 0)\<close>: local midnight of the local day of \<open>t\<close>.\<close>

definition setHours0 :: "int \<Rightarrow> Date \<Rightarrow> Date" where
  "setHours0 tz t = MakeDate (Day (LocalTime tz t)) 0 - tz"

text \<open>\<open>d.setHours(23, 59, 59, 999)\<close>.\<close>

definition setHoursEndOfDay :: "int \<Rightarrow> Date \<Rightarrow> Date" where
  "setHoursEndOfDay tz t = MakeDate (Day (LocalTime tz t)) (msPerDay - 1) - tz"

text \<open>\<open>date-helpers.ts\<close>, \<open>addMonths\<close> and \<open>toLocalMidnight\<close>.\<close>

definition addMonths :: "int \<Rightarrow> Date \<Rightarrow> int \<Rightarrow> Date" where
  "addMonths tz date months =
     (if getDate tz (setMonth tz date (getMonth tz date + months)) \<noteq> getDate tz date
      then setDate tz (setMonth tz date (getMonth tz date + months)) 0
      else setMonth tz date (getMonth tz date + months))"

definition toLocalMidnight :: "int \<Rightarrow> Date \<Rightarrow> Date" where
  "toLocalMidnight tz date = setHours0 tz date"

section \<open>Domain model\<close>

text \<open>\<open>models/ar\<close>: status, money, the materialized AR state.\<close>

datatype ARStatus = PENDING | OVERDUE | PAID | WRITTEN_OFF

text \<open>
  \<open>Money.value\<close> is a JavaScript number; the model keeps whole amounts (\<open>int\<close>).
\<close>

record Money =
  money_value :: int
  currency :: string

text \<open>
  \<open>home_id\<close> and \<open>zone\<close> are declared as strings, and are \<open>undefined\<close> (\<open>None\<close>) on a
  state replayed from an \<open>AR_CREATED\<close> event whose payload lacks them: the event that
  \<open>CreateARCommand\<close> writes has \<open>customer_id\<close> in their place.
\<close>

record ARState =
  ar_id :: string
  home_id :: "string option"
  zone :: "string option"
  customer_name :: string
  amount :: Money
  current_status :: ARStatus
  invoice_date :: Date
  due_date :: Date
  paid_date :: "Date option"
  assigned_sales_id :: "string option"
  customer_chat_id :: "string option"
  manager_chat_id :: "string option"
  last_event_id :: string
  last_event_at :: Date
  event_count :: nat
  version :: nat

text \<open>\<open>models/alert\<close>.\<close>

datatype AlertType = PRE_ALERT | DUE | OVERDUE_ALERT | ESCALATION

datatype TargetType = CUSTOMER | MANAGER | SALES

datatype AlertStatus = QUEUED | PROCESSING | SENT | FAILED

record DeliveryAddress =
  platform :: string
  chat_id :: string

text \<open>
  \<open>message_data\<close> is an object of values for the template. The date checker fills it with
  strings; a value read from a field that is \<open>undefined\<close> is \<open>None\<close>.
\<close>

type_synonym MessageData = "(string \<times> string option) list"

record Alert =
  alert_id :: string
  alert_ar_id :: string
  dedup_key :: "string option"
  alert_type :: AlertType
  target_type :: TargetType
  priority :: int
  delivery_address :: DeliveryAddress
  message_template :: string
  message_data :: MessageData
  status :: AlertStatus
  attempts :: nat
  max_attempts :: nat
  scheduled_for :: Date
  sent_at :: "Date option"
  failed_at :: "Date option"
  alert_error :: "string option"
  triggered_by_event_id :: string

text \<open>
  \<open>events/types\<close>, \<open>events/ar-events\<close>, \<open>events/alert-events\<close>. An event is a tagged
  union: its kind and the shape of its payload go together, so the model reads the kind off
  the payload. \<open>OTHER_TYPE\<close> stands for a stored kind outside the enumeration (the event
  store casts whatever string the document holds).
\<close>

datatype EventType =
    AR_CREATED | STATUS_CHANGED | FOLLOW_UP_LOGGED | ALERT_QUEUED | ALERT_SENT
  | ALERT_FAILED | PAYMENT_VERIFIED | DUE_DATE_CHANGED | OTHER_TYPE string

datatype ActorType = ACTOR_SYSTEM | ACTOR_MANAGER | ACTOR_SALES

record Actor =
  actor_type :: ActorType
  user_id :: "string option"

record EventMetadata =
  correlation_id :: "string option"
  causation_id :: "string option"
  metadata_version :: nat

text \<open>
  The payload of \<open>AR_CREATED\<close> is declared with \<open>home_id\<close> and \<open>zone\<close>, which the replay
  reads; \<open>CreateARCommand\<close> writes \<open>customer_id\<close> and neither of the two. A field the object
  lacks is \<open>None\<close>.
\<close>

record ARCreatedPayload =
  p_customer_id :: "string option"
  p_home_id :: "string option"
  p_zone :: "string option"
  p_customer_name :: string
  p_amount :: Money
  p_invoice_date :: Date
  p_due_date :: Date
  p_assigned_sales_id :: "string option"
  p_customer_chat_id :: "string option"
  p_manager_chat_id :: "string option"

datatype Payload =
    ARCreated ARCreatedPayload
  | StatusChanged ARStatus ARStatus string
  | FollowUpLogged string "string option" "Date option"
  | PaymentVerified Money Date string string
  | DueDateChanged Date Date string
  | AlertQueued string AlertType TargetType int Date
  | AlertSent string Date string "string option"
  | AlertFailed string Date string nat
  | OtherPayload string

record Event =
  event_id :: string
  event_ar_id :: string
  timestamp :: Date
  actor :: Actor
  metadata :: EventMetadata
  payload :: Payload

primrec payload_type :: "Payload \<Rightarrow> EventType" where
  "payload_type (ARCreated p) = AR_CREATED"
| "payload_type (StatusChanged old_status new_status reason) = STATUS_CHANGED"
| "payload_type (FollowUpLogged notes next_action next_action_date) = FOLLOW_UP_LOGGED"
| "payload_type (PaymentVerified paid_amount payment_date verification_method verified_by) =
     PAYMENT_VERIFIED"
| "payload_type (DueDateChanged old_due_date new_due_date reason) = DUE_DATE_CHANGED"
| "payload_type (AlertQueued aid atype ttype prio sched) = ALERT_QUEUED"
| "payload_type (AlertSent aid sent delivery_platform delivery_id) = ALERT_SENT"
| "payload_type (AlertFailed aid failed err n) = ALERT_FAILED"
| "payload_type (OtherPayload kind) = OTHER_TYPE kind"

definition event_type :: "Event \<Rightarrow> EventType" where
  "event_type e = payload_type (payload e)"

text \<open>
  A thrown \<open>Error\<close> is its message. An error of the MongoDB driver also has a numeric
  \<open>code\<close> (11000 is the duplicate-key error).
\<close>

datatype error = Error string | MongoError nat string

section \<open>Event replay (\<open>EventReplayService\<close>)\<close>

definition initializeFromCreatedEvent :: "Event \<Rightarrow> ARCreatedPayload \<Rightarrow> ARState" where
  "initializeFromCreatedEvent event p =
     \<lparr> ar_id = event_ar_id event,
       home_id = p_home_id p,
       zone = p_zone p,
       customer_name = p_customer_name p,
       amount = p_amount p,
       current_status = PENDING,
       invoice_date = p_invoice_date p,
       due_date = p_due_date p,
       paid_date = None,
       assigned_sales_id = p_assigned_sales_id p,
       customer_chat_id = p_customer_chat_id p,
       manager_chat_id = p_manager_chat_id p,
       last_event_id = event_id event,
       last_event_at = timestamp event,
       event_count = 1,
       version = 1 \<rparr>"

text \<open>The copy \<open>{...state, last_event_id, last_event_at, event_count}\<close> that \<open>applyEvent\<close> starts from.\<close>

definition applyEvent_updated :: "ARState \<Rightarrow> Event \<Rightarrow> ARState" where
  "applyEvent_updated state event =
     state\<lparr> last_event_id := event_id event,
            last_event_at := timestamp event,
            event_count := event_count state + 1 \<rparr>"

definition applyEvent :: "ARState \<Rightarrow> Event \<Rightarrow> ARState" where
  "applyEvent state event =
     (case payload event of
        StatusChanged old_status new_status reason \<Rightarrow>
          (applyEvent_updated state event)\<lparr> current_status := new_status \<rparr>
      | PaymentVerified paid_amount payment_date verification_method verified_by \<Rightarrow>
          (applyEvent_updated state event)\<lparr> current_status := PAID, paid_date := Some payment_date \<rparr>
      | DueDateChanged old_due_date new_due_date reason \<Rightarrow>
          (applyEvent_updated state event)\<lparr> due_date := new_due_date \<rparr>
      | FollowUpLogged notes next_action next_action_date \<Rightarrow> applyEvent_updated state event
      | ARCreated p \<Rightarrow> applyEvent_updated state event
      | _ \<Rightarrow> applyEvent_updated state event)"

text \<open>The loop \<open>for (i = 1; i < events.length; i++) state = applyEvent(state, events[i])\<close>.\<close>

primrec applyEvents :: "ARState \<Rightarrow> Event list \<Rightarrow> ARState" where
  "applyEvents state [] = state"
| "applyEvents state (e # es) = applyEvents (applyEvent state e) es"

definition replayEvents :: "Event list \<Rightarrow> error + ARState" where
  "replayEvents events =
     (case events of
        [] \<Rightarrow> Inl (Error ''Cannot replay from empty event list'')
      | createdEvent # rest \<Rightarrow>
          (case payload createdEvent of
             ARCreated p \<Rightarrow> Inr (applyEvents (initializeFromCreatedEvent createdEvent p) rest)
           | _ \<Rightarrow> Inl (Error ''First event must be AR_CREATED'')))"

section \<open>Helpers of \<open>models/ar\<close>\<close>

definition isOverdue :: "int \<Rightarrow> ARState \<Rightarrow> Date \<Rightarrow> bool" where
  "isOverdue tz ar currentDate =
     (if current_status ar = PAID \<or> current_status ar = WRITTEN_OFF then False
      else setHours0 tz (due_date ar) < setHours0 tz currentDate)"

definition daysSinceDue :: "int \<Rightarrow> ARState \<Rightarrow> Date \<Rightarrow> int" where
  "daysSinceDue tz ar currentDate =
     (setHours0 tz currentDate - setHours0 tz (due_date ar)) div msPerDay"

section \<open>Strings\<close>

text \<open>
  \<open>!s || s.trim() === ''\<close> holds of the empty string and of a string of white space only.
  Strings are byte lists here; white space is the ASCII white space.
\<close>

definition is_space :: "char \<Rightarrow> bool" where
  "is_space c = (c = CHR '' '' \<or> c = CHR 0x09 \<or> c = CHR 0x0A \<or> c = CHR 0x0B
                 \<or> c = CHR 0x0C \<or> c = CHR 0x0D)"

definition blank :: "string \<Rightarrow> bool" where
  "blank s = list_all is_space s"

text \<open>JavaScript truthiness of an optional string: present and not empty.\<close>

definition truthy :: "string option \<Rightarrow> bool" where
  "truthy s = (case s of None \<Rightarrow> False | Some v \<Rightarrow> v \<noteq> [])"

text \<open>What a template literal prints for an optional string.\<close>

definition templateText :: "string option \<Rightarrow> string" where
  "templateText s = (case s of None \<Rightarrow> ''undefined'' | Some v \<Rightarrow> v)"

text \<open>Decimal rendering of whole numbers, and \<open>toISOString().split('T')[0]\<close>.\<close>

definition digit_char :: "nat \<Rightarrow> char" where
  "digit_char d = ''0123456789'' ! d"

fun digits :: "nat \<Rightarrow> string" where
  "digits n = (if n < 10 then [digit_char n] else digits (n div 10) @ [digit_char (n mod 10)])"

declare digits.simps [simp del]

definition number_toString :: "int \<Rightarrow> string" where
  "number_toString i = (if i < 0 then CHR ''-'' # digits (nat (- i)) else digits (nat i))"

definition pad_zero :: "nat \<Rightarrow> string \<Rightarrow> string" where
  "pad_zero width s = replicate (width - length s) (CHR ''0'') @ s"

definition year_string :: "int \<Rightarrow> string" where
  "year_string y =
     (if 0 \<le> y \<and> y \<le> 9999 then pad_zero 4 (digits (nat y))
      else if y < 0 then CHR ''-'' # pad_zero 6 (digits (nat (- y)))
      else CHR ''+'' # pad_zero 6 (digits (nat y)))"

definition toISODate :: "Date \<Rightarrow> string" where
  "toISODate t =
     year_string (YearFromTime t) @ ''-'' @ pad_zero 2 (digits (nat (MonthFromTime t + 1)))
       @ ''-'' @ pad_zero 2 (digits (nat (DateFromTime t)))"

section \<open>The stores\<close>

text \<open>
  The three collections, each a list of documents in insertion order. The bookkeeping
  fields the repositories add to a document (\<open>created_at\<close>, \<open>updated_at\<close>) are read by
  no operation modelled here except the ordering of \<open>findAll\<close>, see there.
\<close>

record world =
  events :: "Event list"
  ar_state :: "ARState list"
  alert_queue :: "Alert list"

text \<open>\<open>updateOne(filter, update)\<close>: the first document that matches is updated.\<close>

primrec updateOne :: "('a \<Rightarrow> bool) \<Rightarrow> ('a \<Rightarrow> 'a) \<Rightarrow> 'a list \<Rightarrow> 'a list" where
  "updateOne P f [] = []"
| "updateOne P f (x # xs) = (if P x then f x # xs else x # updateOne P f xs)"

subsection \<open>\<open>MongoEventStore\<close>\<close>

text \<open>
  \<open>insertOne\<close> on the events collection, which has a unique index on \<open>event_id\<close>:
  a document whose \<open>event_id\<close> is taken is refused with the driver's error 11000.
  \<open>fault\<close> is an error of the infrastructure (storage unreachable, ...) that the
  driver raises instead of inserting.
\<close>

definition insertOne_event :: "error option \<Rightarrow> Event \<Rightarrow> Event list \<Rightarrow> error + Event list" where
  "insertOne_event fault doc coll =
     (case fault of
        Some e \<Rightarrow> Inl e
      | None \<Rightarrow>
          if event_id doc \<in> set (map event_id coll)
          then Inl (MongoError 11000 ''E11000 duplicate key error'')
          else Inr (coll @ [doc]))"

definition error_code :: "error \<Rightarrow> nat option" where
  "error_code e = (case e of Error m \<Rightarrow> None | MongoError c m \<Rightarrow> Some c)"

definition error_message :: "error \<Rightarrow> string" where
  "error_message e = (case e of Error m \<Rightarrow> m | MongoError c m \<Rightarrow> m)"

definition append :: "error option \<Rightarrow> Event \<Rightarrow> world \<Rightarrow> (error + unit) \<times> world" where
  "append fault event w =
     (case insertOne_event fault event (events w) of
        Inr coll \<Rightarrow> (Inr (), w\<lparr> events := coll \<rparr>)
      | Inl e \<Rightarrow> if error_code e = Some 11000 then (Inr (), w) else (Inl e, w))"

definition getEventsForAR :: "string \<Rightarrow> world \<Rightarrow> Event list" where
  "getEventsForAR a w = sort_key timestamp (filter (\<lambda>e. event_ar_id e = a) (events w))"

subsection \<open>\<open>MongoARRepository\<close>\<close>

definition findById :: "string \<Rightarrow> world \<Rightarrow> ARState option" where
  "findById a w = find (\<lambda>d. ar_id d = a) (ar_state w)"

definition save :: "ARState \<Rightarrow> world \<Rightarrow> (error + unit) \<times> world" where
  "save state w =
     (case find (\<lambda>d. ar_id d = ar_id state) (ar_state w) of
        Some existingAR \<Rightarrow>
          if list_ex (\<lambda>d. ar_id d = ar_id state \<and> version d = version state) (ar_state w)
          then (Inr (),
                w\<lparr> ar_state :=
                     updateOne (\<lambda>d. ar_id d = ar_id state \<and> version d = version state)
                       (\<lambda>d. state\<lparr> version := version state + 1 \<rparr>) (ar_state w) \<rparr>)
          else (Inl (Error (''Optimistic lock failed for AR '' @ ar_id state
                             @ '': AR was modified concurrently'')), w)
      | None \<Rightarrow> (Inr (), w\<lparr> ar_state := ar_state w @ [state] \<rparr>))"

definition findByDueDateAndStatus :: "int \<Rightarrow> Date \<Rightarrow> ARStatus \<Rightarrow> world \<Rightarrow> ARState list" where
  "findByDueDateAndStatus tz due st w =
     filter (\<lambda>d. current_status d = st \<and> setHours0 tz due \<le> due_date d
                  \<and> due_date d \<le> setHoursEndOfDay tz due) (ar_state w)"

definition findOverdue :: "int \<Rightarrow> Date \<Rightarrow> world \<Rightarrow> ARState list" where
  "findOverdue tz current_date w =
     sort_key due_date
       (filter (\<lambda>d. current_status d = PENDING \<and> due_date d < setHours0 tz current_date)
          (ar_state w))"

text \<open>
  \<open>findAll(limit = 100, offset = 0)\<close> sorts by \<open>created_at\<close>, newest first. A document's
  \<open>created_at\<close> is the instant of its insertion, so the order is the reverse of the
  insertion order.
\<close>

definition findAll :: "world \<Rightarrow> ARState list" where
  "findAll w = take 100 (rev (ar_state w))"

text \<open>
  Modelled from the spec: \<open>MongoARRepository.updateStatus\<close> is not among the sources. The
  interface \<open>IARRepository\<close> documents it as "Update AR status (called after STATUS_CHANGED
  event)" with \<open>new_status\<close> "New status to set", and the spec says the command "updates
  the snapshot status field": the status of the document of that AR is set, nothing else.
\<close>

definition updateStatus :: "string \<Rightarrow> ARStatus \<Rightarrow> world \<Rightarrow> world" where
  "updateStatus a new_status w =
     w\<lparr> ar_state := updateOne (\<lambda>d. ar_id d = a) (\<lambda>d. d\<lparr> current_status := new_status \<rparr>)
                       (ar_state w) \<rparr>"

text \<open>
  Modelled from the spec: \<open>MongoARRepository.findByHomeIdAndDueDate\<close> is not among the
  sources. The interface documents it as "Find AR by home ID and due date. Used for
  duplicate prevention in monthly AR auto-creation", returning the AR or null; the spec
  calls it the duplicate check on (billable entity, due date).
\<close>

definition findByHomeIdAndDueDate :: "string option \<Rightarrow> Date \<Rightarrow> world \<Rightarrow> ARState option" where
  "findByHomeIdAndDueDate h due w = find (\<lambda>d. home_id d = h \<and> due_date d = due) (ar_state w)"

subsection \<open>\<open>MongoAlertRepository\<close>\<close>

text \<open>\<open>updateOne({alert_id}, {$set: alert}, {upsert: true})\<close>.\<close>

definition saveAlert :: "Alert \<Rightarrow> world \<Rightarrow> world" where
  "saveAlert alert w =
     (if list_ex (\<lambda>d. alert_id d = alert_id alert) (alert_queue w)
      then w\<lparr> alert_queue :=
                updateOne (\<lambda>d. alert_id d = alert_id alert) (\<lambda>d. alert) (alert_queue w) \<rparr>
      else w\<lparr> alert_queue := alert_queue w @ [alert] \<rparr>)"

definition findByDedupKey :: "string \<Rightarrow> world \<Rightarrow> Alert option" where
  "findByDedupKey k w = find (\<lambda>d. dedup_key d = Some k) (alert_queue w)"

definition findByARId :: "string \<Rightarrow> world \<Rightarrow> Alert list" where
  "findByARId a w = rev (filter (\<lambda>d. alert_ar_id d = a) (alert_queue w))"

section \<open>Alerts\<close>

subsection \<open>Helpers of \<open>models/alert\<close>\<close>

definition isReadyToProcess :: "Alert \<Rightarrow> Date \<Rightarrow> bool" where
  "isReadyToProcess alert currentTime = (status alert = QUEUED \<and> scheduled_for alert \<le> currentTime)"

definition canRetry :: "Alert \<Rightarrow> bool" where
  "canRetry alert = (attempts alert < max_attempts alert)"

text \<open>
  \<open>new Date(x)\<close> drops the fraction of \<open>x\<close>, towards zero. \<open>trunc_half v\<close> is \<open>v / 2\<close>
  with its fraction dropped.
\<close>

definition trunc_half :: "int \<Rightarrow> int" where
  "trunc_half v = (if 0 \<le> v then v div 2 else - ((- v) div 2))"

text \<open>
  \<open>getNextRetryTime\<close>: \<open>new Date(Date.now() + baseDelayMs * Math.pow(2, attempts - 1))\<close>;
  \<open>now\<close> is the reading of \<open>Date.now()\<close>. With no attempt made the factor is one half.
\<close>

definition getNextRetryTime :: "Date \<Rightarrow> Alert \<Rightarrow> int \<Rightarrow> Date" where
  "getNextRetryTime now alert baseDelayMs =
     (if 1 \<le> attempts alert then now + baseDelayMs * 2 ^ (attempts alert - 1)
      else trunc_half (2 * now + baseDelayMs))"

definition defaultBaseDelayMs :: int where
  "defaultBaseDelayMs = 5 * 60 * 1000"

subsection \<open>\<open>AlertService\<close>\<close>

text \<open>
  \<open>QueueAlertParams\<close>. The interface declares no \<open>dedup_key\<close>; the date checker passes one
  in the object it hands over, so the object that arrives has it, and the record keeps it
  as \<open>qa_dedup_key\<close>.
\<close>

record QueueAlertParams =
  qa_ar_id :: string
  qa_alert_type :: AlertType
  qa_target_type :: TargetType
  qa_delivery_chat_id :: string
  qa_delivery_platform :: "string option"
  qa_priority :: "int option"
  qa_scheduled_for :: "Date option"
  qa_message_template :: string
  qa_message_data :: MessageData
  qa_triggered_by_event_id :: "string option"
  qa_dedup_key :: "string option"

definition getDefaultPriority :: "AlertType \<Rightarrow> int" where
  "getDefaultPriority alertType =
     (case alertType of PRE_ALERT \<Rightarrow> 2 | DUE \<Rightarrow> 3 | OVERDUE_ALERT \<Rightarrow> 4 | ESCALATION \<Rightarrow> 5)"

definition systemActor :: Actor where
  "systemActor = \<lparr> actor_type = ACTOR_SYSTEM, user_id = None \<rparr>"

definition metadataV1 :: EventMetadata where
  "metadataV1 = \<lparr> correlation_id = None, causation_id = None, metadata_version = 1 \<rparr>"

definition nullish :: "'a option \<Rightarrow> 'a \<Rightarrow> 'a" where
  "nullish v d = (case v of None \<Rightarrow> d | Some x \<Rightarrow> x)"

text \<open>The alert object \<open>queueAlert\<close> builds. It sets no \<open>dedup_key\<close>.\<close>

definition queueAlert_alert :: "string \<Rightarrow> Date \<Rightarrow> QueueAlertParams \<Rightarrow> Alert" where
  "queueAlert_alert new_alert_id now params =
     \<lparr> alert_id = new_alert_id,
       alert_ar_id = qa_ar_id params,
       dedup_key = None,
       alert_type = qa_alert_type params,
       target_type = qa_target_type params,
       priority = nullish (qa_priority params) (getDefaultPriority (qa_alert_type params)),
       delivery_address =
         \<lparr> platform = nullish (qa_delivery_platform params) ''TELEGRAM'',
           chat_id = qa_delivery_chat_id params \<rparr>,
       message_template = qa_message_template params,
       message_data = qa_message_data params,
       status = QUEUED,
       attempts = 0,
       max_attempts = 3,
       scheduled_for = nullish (qa_scheduled_for params) now,
       sent_at = None,
       failed_at = None,
       alert_error = None,
       triggered_by_event_id = nullish (qa_triggered_by_event_id params) [] \<rparr>"

definition queueAlert_event :: "string \<Rightarrow> string \<Rightarrow> Date \<Rightarrow> QueueAlertParams \<Rightarrow> Event" where
  "queueAlert_event new_alert_id new_event_id now params =
     \<lparr> event_id = new_event_id,
       event_ar_id = qa_ar_id params,
       timestamp = now,
       actor = systemActor,
       metadata = metadataV1,
       payload = AlertQueued new_alert_id (qa_alert_type params) (qa_target_type params)
                   (nullish (qa_priority params) (getDefaultPriority (qa_alert_type params)))
                   (nullish (qa_scheduled_for params) now) \<rparr>"

text \<open>
  \<open>queueAlert\<close>. \<open>new_alert_id\<close> and \<open>new_event_id\<close> are the two values \<open>uuidv4()\<close>
  returns, \<open>now\<close> the reading of the clock.
\<close>

definition queueAlert ::
  "string \<Rightarrow> string \<Rightarrow> Date \<Rightarrow> QueueAlertParams \<Rightarrow> world \<Rightarrow> (error + string) \<times> world" where
  "queueAlert new_alert_id new_event_id now params w =
     (case append None (queueAlert_event new_alert_id new_event_id now params)
             (saveAlert (queueAlert_alert new_alert_id now params) w) of
        (Inl e, w') \<Rightarrow> (Inl e, w')
      | (Inr u, w') \<Rightarrow> (Inr new_alert_id, w'))"

subsection \<open>\<open>AlertDeliveryService\<close>\<close>

definition alertFailedEvent :: "string \<Rightarrow> Date \<Rightarrow> Alert \<Rightarrow> string \<Rightarrow> Event" where
  "alertFailedEvent new_event_id now alert errorMessage =
     \<lparr> event_id = new_event_id,
       event_ar_id = alert_ar_id alert,
       timestamp = now,
       actor = systemActor,
       metadata = metadataV1,
       payload = AlertFailed (alert_id alert) now errorMessage (attempts alert) \<rparr>"

definition alertSentEvent :: "string \<Rightarrow> Date \<Rightarrow> Alert \<Rightarrow> string \<Rightarrow> Event" where
  "alertSentEvent new_event_id now alert delivery_id =
     \<lparr> event_id = new_event_id,
       event_ar_id = alert_ar_id alert,
       timestamp = now,
       actor = systemActor,
       metadata = metadataV1,
       payload = AlertSent (alert_id alert) now (platform (delivery_address alert))
                   (Some delivery_id) \<rparr>"

text \<open>The alert as \<open>handleDeliveryFailure\<close> leaves it before saving.\<close>

definition failedAlert :: "Date \<Rightarrow> Alert \<Rightarrow> string \<Rightarrow> Alert" where
  "failedAlert now alert errorMessage =
     (if canRetry alert
      then alert\<lparr> alert_error := Some errorMessage, status := QUEUED,
                  scheduled_for := getNextRetryTime now alert defaultBaseDelayMs \<rparr>
      else alert\<lparr> alert_error := Some errorMessage, status := FAILED, failed_at := Some now \<rparr>)"

definition handleDeliveryFailure ::
  "string \<Rightarrow> Date \<Rightarrow> Alert \<Rightarrow> string \<Rightarrow> world \<Rightarrow> (error + unit) \<times> world" where
  "handleDeliveryFailure new_event_id now alert errorMessage w =
     append None (alertFailedEvent new_event_id now (failedAlert now alert errorMessage) errorMessage)
       (saveAlert (failedAlert now alert errorMessage) w)"

text \<open>
  The \<open>catch\<close> of \<open>deliverAlert\<close>: handle the failure, then throw the error again. An
  error thrown by the handler itself takes its place.
\<close>

definition deliverAlert_catch ::
  "string \<Rightarrow> Date \<Rightarrow> Alert \<Rightarrow> error \<Rightarrow> world \<Rightarrow> (error + unit) \<times> world" where
  "deliverAlert_catch failed_event_id now alert e w =
     (case handleDeliveryFailure failed_event_id now alert (error_message e) w of
        (Inl e2, w') \<Rightarrow> (Inl e2, w')
      | (Inr u, w') \<Rightarrow> (Inl e, w'))"

text \<open>What follows a successful send: mark as sent, save, log \<open>ALERT_SENT\<close>.\<close>

definition deliverAlert_sent ::
  "string \<Rightarrow> string \<Rightarrow> Date \<Rightarrow> Alert \<Rightarrow> string \<Rightarrow> world \<Rightarrow> (error + unit) \<times> world" where
  "deliverAlert_sent sent_event_id failed_event_id now alert delivery_id w =
     (case append None
             (alertSentEvent sent_event_id now (alert\<lparr> status := SENT, sent_at := Some now \<rparr>)
                delivery_id)
             (saveAlert (alert\<lparr> status := SENT, sent_at := Some now \<rparr>) w) of
        (Inl e, w') \<Rightarrow>
          deliverAlert_catch failed_event_id now (alert\<lparr> status := SENT, sent_at := Some now \<rparr>) e w'
      | (Inr u, w') \<Rightarrow> (Inr (), w'))"

text \<open>
  The \<open>try\<close> block, on the alert already marked as processing, up to the answer of the
  channel. \<open>formatMessage\<close> renders the template (it builds a regular expression from
  every key of the data and can throw on one); \<open>sendMessage\<close> is the Telegram client,
  given the chat id and the text, and answers with the id of the message or throws. Both
  are parameters here.
\<close>

definition deliveryAttempt ::
  "(string \<Rightarrow> MessageData \<Rightarrow> error + string) \<Rightarrow> (string \<Rightarrow> string \<Rightarrow> error + string)
   \<Rightarrow> Alert \<Rightarrow> error + string" where
  "deliveryAttempt formatMessage sendMessage alert =
     (case formatMessage (message_template alert) (message_data alert) of
        Inl e \<Rightarrow> Inl e
      | Inr messageText \<Rightarrow>
          if platform (delivery_address alert) = ''TELEGRAM''
          then sendMessage (chat_id (delivery_address alert)) messageText
          else Inl (Error (''Unsupported delivery platform: '' @ platform (delivery_address alert))))"

definition deliverAlert_try ::
  "(string \<Rightarrow> MessageData \<Rightarrow> error + string) \<Rightarrow> (string \<Rightarrow> string \<Rightarrow> error + string)
   \<Rightarrow> string \<Rightarrow> string \<Rightarrow> Date \<Rightarrow> Alert \<Rightarrow> world \<Rightarrow> (error + unit) \<times> world" where
  "deliverAlert_try formatMessage sendMessage sent_event_id failed_event_id now alert w =
     (case deliveryAttempt formatMessage sendMessage alert of
        Inl e \<Rightarrow> deliverAlert_catch failed_event_id now alert e w
      | Inr delivery_id \<Rightarrow>
          deliverAlert_sent sent_event_id failed_event_id now alert delivery_id w)"

text \<open>
  \<open>deliverAlert\<close>. \<open>sent_event_id\<close> and \<open>failed_event_id\<close> are the identities
  \<open>uuidv4()\<close> returns for the \<open>ALERT_SENT\<close> and the \<open>ALERT_FAILED\<close> event.
\<close>

definition deliverAlert ::
  "(string \<Rightarrow> MessageData \<Rightarrow> error + string) \<Rightarrow> (string \<Rightarrow> string \<Rightarrow> error + string)
   \<Rightarrow> string \<Rightarrow> string \<Rightarrow> Date \<Rightarrow> Alert \<Rightarrow> world \<Rightarrow> (error + unit) \<times> world" where
  "deliverAlert formatMessage sendMessage sent_event_id failed_event_id now alert w =
     deliverAlert_try formatMessage sendMessage sent_event_id failed_event_id now
       (alert\<lparr> status := PROCESSING, attempts := attempts alert + 1 \<rparr>)
       (saveAlert (alert\<lparr> status := PROCESSING, attempts := attempts alert + 1 \<rparr>) w)"

section \<open>Commands\<close>

subsection \<open>\<open>CreateARCommand\<close>\<close>

text \<open>
  \<open>CreateARDTO\<close> declares \<open>customer_id\<close>, \<open>customer_name\<close>, the amount, the two dates and the
  optional sales and chat ids. The record is the object a caller hands over: the callers
  among the sources (\<open>CreateNextMonthARCommand\<close>, the date checker) build it with \<open>home_id\<close>
  and \<open>zone\<close> and without \<open>customer_id\<close>, and one of them can leave \<open>invoice_date\<close>
  \<open>undefined\<close>. The checks for an absent amount or due date have no counterpart on the
  record.
\<close>

record CreateARDTO =
  dto_customer_id :: "string option"
  dto_home_id :: "string option"
  dto_zone :: "string option"
  dto_customer_name :: string
  dto_amount :: Money
  dto_invoice_date :: "Date option"
  dto_due_date :: Date
  dto_assigned_sales_id :: "string option"
  dto_customer_chat_id :: "string option"
  dto_manager_chat_id :: "string option"

text \<open>\<open>!s || s.trim() === ''\<close> on an optional string.\<close>

definition missing :: "string option \<Rightarrow> bool" where
  "missing s = (case s of None \<Rightarrow> True | Some v \<Rightarrow> blank v)"

definition CreateARCommand_validateDates :: "CreateARDTO \<Rightarrow> error option" where
  "CreateARCommand_validateDates dto =
     (case dto_invoice_date dto of
        None \<Rightarrow> Some (Error ''invoice_date is required'')
      | Some invoice \<Rightarrow>
          if dto_due_date dto < invoice then Some (Error ''due_date cannot be before invoice_date'')
          else None)"

definition CreateARCommand_validateInput :: "CreateARDTO \<Rightarrow> error option" where
  "CreateARCommand_validateInput dto =
     (if missing (dto_customer_id dto) then Some (Error ''customer_id is required'')
      else if blank (dto_customer_name dto) then Some (Error ''customer_name is required'')
      else if money_value (dto_amount dto) \<le> 0 then Some (Error ''amount must be greater than 0'')
      else if blank (currency (dto_amount dto)) then Some (Error ''currency is required'')
      else CreateARCommand_validateDates dto)"

text \<open>
  The event \<open>execute\<close> builds. Its payload takes \<open>customer_id\<close> and the other declared
  fields from the DTO; it has no \<open>home_id\<close> and no \<open>zone\<close>. \<open>invoice\<close> is the invoice date
  that passed the validation.
\<close>

definition arCreatedEvent :: "string \<Rightarrow> string \<Rightarrow> Date \<Rightarrow> CreateARDTO \<Rightarrow> Date \<Rightarrow> Event" where
  "arCreatedEvent new_ar_id new_event_id now dto invoice =
     \<lparr> event_id = new_event_id,
       event_ar_id = new_ar_id,
       timestamp = now,
       actor = systemActor,
       metadata = metadataV1,
       payload = ARCreated
         \<lparr> p_customer_id = dto_customer_id dto,
           p_home_id = None,
           p_zone = None,
           p_customer_name = dto_customer_name dto,
           p_amount = dto_amount dto,
           p_invoice_date = invoice,
           p_due_date = dto_due_date dto,
           p_assigned_sales_id = dto_assigned_sales_id dto,
           p_customer_chat_id = dto_customer_chat_id dto,
           p_manager_chat_id = dto_manager_chat_id dto \<rparr> \<rparr>"

definition CreateARCommand_save ::
  "string \<Rightarrow> error + ARState \<Rightarrow> world \<Rightarrow> (error + string) \<times> world" where
  "CreateARCommand_save new_ar_id replayed w =
     (case replayed of
        Inl e \<Rightarrow> (Inl e, w)
      | Inr state \<Rightarrow>
          (case save state w of
             (Inl e, w') \<Rightarrow> (Inl e, w')
           | (Inr u, w') \<Rightarrow> (Inr new_ar_id, w')))"

definition CreateARCommand_create ::
  "string \<Rightarrow> Event \<Rightarrow> world \<Rightarrow> (error + string) \<times> world" where
  "CreateARCommand_create new_ar_id event w =
     (case append None event w of
        (Inl e, w') \<Rightarrow> (Inl e, w')
      | (Inr u, w') \<Rightarrow> CreateARCommand_save new_ar_id (replayEvents [event]) w')"

text \<open>
  \<open>execute\<close>. Past the validation the invoice date is present; the inner case only takes it
  out of the option.
\<close>

definition CreateARCommand_execute ::
  "string \<Rightarrow> string \<Rightarrow> Date \<Rightarrow> CreateARDTO \<Rightarrow> world \<Rightarrow> (error + string) \<times> world" where
  "CreateARCommand_execute new_ar_id new_event_id now dto w =
     (case CreateARCommand_validateInput dto of
        Some e \<Rightarrow> (Inl e, w)
      | None \<Rightarrow>
          (case dto_invoice_date dto of
             None \<Rightarrow> (Inl (Error ''invoice_date is required''), w)
           | Some invoice \<Rightarrow>
               CreateARCommand_create new_ar_id
                 (arCreatedEvent new_ar_id new_event_id now dto invoice) w))"

subsection \<open>\<open>ChangeARStatusCommand\<close>\<close>

record ChangeARStatusDTO =
  cs_ar_id :: string
  cs_new_status :: ARStatus
  cs_reason :: string
  cs_actor :: Actor

text \<open>
  \<open>new_status\<close> is typed by the enumeration, so the checks that it is present and one of
  the four values have no counterpart.
\<close>

definition ChangeARStatusCommand_validateInput :: "ChangeARStatusDTO \<Rightarrow> error option" where
  "ChangeARStatusCommand_validateInput dto =
     (if blank (cs_ar_id dto) then Some (Error ''ar_id is required'')
      else if blank (cs_reason dto) then Some (Error ''reason is required'')
      else None)"

definition statusChangedEvent :: "string \<Rightarrow> Date \<Rightarrow> ChangeARStatusDTO \<Rightarrow> ARState \<Rightarrow> Event" where
  "statusChangedEvent new_event_id now dto currentAR =
     \<lparr> event_id = new_event_id,
       event_ar_id = cs_ar_id dto,
       timestamp = now,
       actor = cs_actor dto,
       metadata = metadataV1,
       payload = StatusChanged (current_status currentAR) (cs_new_status dto) (cs_reason dto) \<rparr>"

definition ChangeARStatusCommand_execute ::
  "string \<Rightarrow> Date \<Rightarrow> ChangeARStatusDTO \<Rightarrow> world \<Rightarrow> (error + unit) \<times> world" where
  "ChangeARStatusCommand_execute new_event_id now dto w =
     (case ChangeARStatusCommand_validateInput dto of
        Some e \<Rightarrow> (Inl e, w)
      | None \<Rightarrow>
          (case findById (cs_ar_id dto) w of
             None \<Rightarrow> (Inl (Error (''AR not found: '' @ cs_ar_id dto)), w)
           | Some currentAR \<Rightarrow>
               if current_status currentAR = cs_new_status dto then (Inr (), w)
               else (case append None (statusChangedEvent new_event_id now dto currentAR) w of
                       (Inl e, w') \<Rightarrow> (Inl e, w')
                     | (Inr u, w') \<Rightarrow>
                         (Inr (), updateStatus (cs_ar_id dto) (cs_new_status dto) w'))))"

subsection \<open>\<open>CreateNextMonthARCommand\<close>\<close>

text \<open>
  The sources hold two revisions. The first stands in one file with \<open>VerifyPaymentCommand\<close>,
  which calls it with \<open>{ paid_ar_id }\<close>: it moves the due date with \<open>setMonth\<close> and hands the
  data of the new AR to \<open>CreateARCommand\<close> without looking for an existing one.
\<close>

record CreateNextMonthARDTO =
  paid_ar_id :: string

text \<open>
  \<open>newARData\<close>, the object both revisions and the date checker build from an AR: \<open>home_id\<close>
  and \<open>zone\<close> of the AR, no \<open>customer_id\<close>.
\<close>

definition nextMonthARData :: "ARState \<Rightarrow> Date option \<Rightarrow> Date \<Rightarrow> CreateARDTO" where
  "nextMonthARData paidAR invoice nextDueDate =
     \<lparr> dto_customer_id = None,
       dto_home_id = home_id paidAR,
       dto_zone = zone paidAR,
       dto_customer_name = customer_name paidAR,
       dto_amount = amount paidAR,
       dto_invoice_date = invoice,
       dto_due_date = nextDueDate,
       dto_assigned_sales_id = assigned_sales_id paidAR,
       dto_customer_chat_id = customer_chat_id paidAR,
       dto_manager_chat_id = manager_chat_id paidAR \<rparr>"

definition CreateNextMonthARCommand_execute ::
  "int \<Rightarrow> string \<Rightarrow> string \<Rightarrow> Date \<Rightarrow> CreateNextMonthARDTO \<Rightarrow> world \<Rightarrow> (error + string) \<times> world" where
  "CreateNextMonthARCommand_execute tz new_ar_id new_event_id now dto w =
     (case findById (paid_ar_id dto) w of
        None \<Rightarrow> (Inl (Error (''Paid AR not found: '' @ paid_ar_id dto)), w)
      | Some paidAR \<Rightarrow>
          CreateARCommand_execute new_ar_id new_event_id now
            (nextMonthARData paidAR (Some now)
               (setMonth tz (due_date paidAR) (getMonth tz (due_date paidAR) + 1))) w)"

text \<open>
  The second revision (\<open>create-next-month-ar.command.ts\<close>) takes the payment date too,
  moves the due date with \<open>addMonths\<close> and returns the AR that \<open>findByHomeIdAndDueDate\<close>
  finds, if any, instead of calling \<open>CreateARCommand\<close>. \<open>VerifyPaymentCommand\<close> hands over
  \<open>{ paid_ar_id }\<close> alone, so the payment date can be \<open>undefined\<close>.
\<close>

record CreateNextMonthARDTO2 =
  paid_ar_id2 :: string
  payment_date2 :: "Date option"

definition CreateNextMonthARCommand_execute2 ::
  "int \<Rightarrow> string \<Rightarrow> string \<Rightarrow> Date \<Rightarrow> CreateNextMonthARDTO2 \<Rightarrow> world \<Rightarrow> (error + string) \<times> world" where
  "CreateNextMonthARCommand_execute2 tz new_ar_id new_event_id now dto w =
     (case findById (paid_ar_id2 dto) w of
        None \<Rightarrow> (Inl (Error (''Paid AR not found: '' @ paid_ar_id2 dto)), w)
      | Some paidAR \<Rightarrow>
          (case findByHomeIdAndDueDate (home_id paidAR) (addMonths tz (due_date paidAR) 1) w of
             Some existingAR \<Rightarrow> (Inr (ar_id existingAR), w)
           | None \<Rightarrow>
               CreateARCommand_execute new_ar_id new_event_id now
                 (nextMonthARData paidAR (payment_date2 dto) (addMonths tz (due_date paidAR) 1)) w))"

subsection \<open>\<open>VerifyPaymentCommand\<close>\<close>

record VerifyPaymentDTO =
  vp_ar_id :: string
  vp_paid_amount :: Money
  vp_payment_date :: Date
  vp_verification_method :: string
  vp_verified_by :: string

definition VerifyPaymentCommand_validateInput :: "VerifyPaymentDTO \<Rightarrow> error option" where
  "VerifyPaymentCommand_validateInput dto =
     (if blank (vp_ar_id dto) then Some (Error ''ar_id is required'')
      else if money_value (vp_paid_amount dto) \<le> 0
        then Some (Error ''paid_amount must be greater than 0'')
      else if blank (currency (vp_paid_amount dto)) then Some (Error ''currency is required'')
      else if blank (vp_verification_method dto)
        then Some (Error ''verification_method is required'')
      else if blank (vp_verified_by dto) then Some (Error ''verified_by is required'')
      else None)"

definition paymentVerifiedEvent :: "string \<Rightarrow> Date \<Rightarrow> VerifyPaymentDTO \<Rightarrow> Event" where
  "paymentVerifiedEvent new_event_id now dto =
     \<lparr> event_id = new_event_id,
       event_ar_id = vp_ar_id dto,
       timestamp = now,
       actor = \<lparr> actor_type = ACTOR_MANAGER, user_id = Some (vp_verified_by dto) \<rparr>,
       metadata = metadataV1,
       payload = PaymentVerified (vp_paid_amount dto) (vp_payment_date dto)
                   (vp_verification_method dto) (vp_verified_by dto) \<rparr>"

text \<open>The AR as \<open>execute\<close> mutates it before saving.\<close>

definition markedPaid :: "string \<Rightarrow> Date \<Rightarrow> VerifyPaymentDTO \<Rightarrow> ARState \<Rightarrow> ARState" where
  "markedPaid new_event_id now dto ar =
     ar\<lparr> current_status := PAID,
         paid_date := Some (vp_payment_date dto),
         last_event_id := new_event_id,
         last_event_at := now,
         event_count := event_count ar + 1 \<rparr>"

text \<open>
  \<open>try { await this.createNextMonthAR.execute({ paid_ar_id }) } catch { log }\<close>: whatever
  the routine returns or throws, the verification goes on with the store as the routine
  left it.
\<close>

definition VerifyPaymentCommand_nextMonth ::
  "(CreateNextMonthARDTO \<Rightarrow> world \<Rightarrow> (error + string) \<times> world) \<Rightarrow> string \<Rightarrow> world
   \<Rightarrow> (error + unit) \<times> world" where
  "VerifyPaymentCommand_nextMonth createNextMonthAR a w =
     (case createNextMonthAR \<lparr> paid_ar_id = a \<rparr> w of
        (Inl e, w') \<Rightarrow> (Inr (), w')
      | (Inr new_id, w') \<Rightarrow> (Inr (), w'))"

text \<open>
  \<open>createNextMonthAR\<close> is the command the constructor was given, with the identities and
  the clock reading it will draw.
\<close>

definition VerifyPaymentCommand_execute ::
  "(CreateNextMonthARDTO \<Rightarrow> world \<Rightarrow> (error + string) \<times> world) \<Rightarrow> string \<Rightarrow> Date
   \<Rightarrow> VerifyPaymentDTO \<Rightarrow> world \<Rightarrow> (error + unit) \<times> world" where
  "VerifyPaymentCommand_execute createNextMonthAR new_event_id now dto w =
     (case VerifyPaymentCommand_validateInput dto of
        Some e \<Rightarrow> (Inl e, w)
      | None \<Rightarrow>
          (case findById (vp_ar_id dto) w of
             None \<Rightarrow> (Inl (Error (''AR '' @ vp_ar_id dto @ '' not found'')), w)
           | Some ar \<Rightarrow>
               if current_status ar = PAID
               then (Inl (Error (''AR '' @ vp_ar_id dto @ '' is already marked as paid'')), w)
               else (case append None (paymentVerifiedEvent new_event_id now dto) w of
                       (Inl e, w') \<Rightarrow> (Inl e, w')
                     | (Inr u, w') \<Rightarrow>
                         (case save (markedPaid new_event_id now dto ar) w' of
                            (Inl e, w'') \<Rightarrow> (Inl e, w'')
                          | (Inr u2, w'') \<Rightarrow>
                              VerifyPaymentCommand_nextMonth createNextMonthAR (vp_ar_id dto) w''))))"

section \<open>The date checker (\<open>DateCheckerWorker\<close>)\<close>

text \<open>
  One run draws many identities. \<open>uuid\<close> is the sequence of values \<open>uuidv4()\<close> returns
  during the run and the state of a run is the number of values drawn so far together
  with the stores. Every step takes the same reading \<open>now\<close> of the clock.
\<close>

type_synonym sweep = "nat \<times> world"

definition andThen :: "(error + unit) \<times> 's \<Rightarrow> ('s \<Rightarrow> (error + unit) \<times> 's) \<Rightarrow> (error + unit) \<times> 's" where
  "andThen r f = (case r of (Inl e, s) \<Rightarrow> (Inl e, s) | (Inr u, s) \<Rightarrow> f s)"

primrec forEach :: "('a \<Rightarrow> 's \<Rightarrow> (error + unit) \<times> 's) \<Rightarrow> 'a list \<Rightarrow> 's \<Rightarrow> (error + unit) \<times> 's" where
  "forEach f [] s = (Inr (), s)"
| "forEach f (x # xs) s = andThen (f x s) (forEach f xs)"

text \<open>\<open>if (chat_id) { ... chat_id ... }\<close>.\<close>

definition ifChat :: "string option \<Rightarrow> (string \<Rightarrow> 's \<Rightarrow> (error + unit) \<times> 's) \<Rightarrow> 's \<Rightarrow> (error + unit) \<times> 's" where
  "ifChat c f s = (case c of None \<Rightarrow> (Inr (), s) | Some v \<Rightarrow> if v = [] then (Inr (), s) else f v s)"

definition ifCond :: "bool \<Rightarrow> ('s \<Rightarrow> (error + unit) \<times> 's) \<Rightarrow> 's \<Rightarrow> (error + unit) \<times> 's" where
  "ifCond c f s = (if c then f s else (Inr (), s))"

definition queueAlert_sweep :: "(nat \<Rightarrow> string) \<Rightarrow> Date \<Rightarrow> QueueAlertParams \<Rightarrow> sweep \<Rightarrow> (error + unit) \<times> sweep" where
  "queueAlert_sweep uuid now params s =
     (case queueAlert (uuid (fst s)) (uuid (fst s + 1)) now params (snd s) of
        (Inl e, w') \<Rightarrow> (Inl e, (fst s + 2, w'))
      | (Inr new_id, w') \<Rightarrow> (Inr (), (fst s + 2, w')))"

record DateCheckerConfig =
  cfg_prealertDays :: "int option"
  cfg_futureArMonthsAhead :: "int option"

text \<open>\<open>config.prealertDays || 3\<close> and \<open>config.futureArMonthsAhead ?? 6\<close>.\<close>

definition prealertDays :: "DateCheckerConfig \<Rightarrow> int" where
  "prealertDays cfg = (case cfg_prealertDays cfg of None \<Rightarrow> 3 | Some d \<Rightarrow> if d = 0 then 3 else d)"

definition futureArMonthsAhead :: "DateCheckerConfig \<Rightarrow> int" where
  "futureArMonthsAhead cfg = nullish (cfg_futureArMonthsAhead cfg) 6"

definition amountText :: "ARState \<Rightarrow> string" where
  "amountText ar = number_toString (money_value (amount ar)) @ '' '' @ currency (amount ar)"

subsection \<open>\<open>updateOverdueStatus\<close>\<close>

definition overdueStatusDTO :: "ARState \<Rightarrow> ChangeARStatusDTO" where
  "overdueStatusDTO ar =
     \<lparr> cs_ar_id = ar_id ar,
       cs_new_status = OVERDUE,
       cs_reason = ''Due date passed: '' @ toISODate (due_date ar),
       cs_actor = systemActor \<rparr>"

text \<open>The error of one AR is logged and the loop goes on.\<close>

definition updateOverdueStatus_one :: "(nat \<Rightarrow> string) \<Rightarrow> Date \<Rightarrow> ARState \<Rightarrow> sweep \<Rightarrow> (error + unit) \<times> sweep" where
  "updateOverdueStatus_one uuid now ar s =
     (Inr (), (fst s + 1,
               snd (ChangeARStatusCommand_execute (uuid (fst s)) now (overdueStatusDTO ar) (snd s))))"

definition updateOverdueStatus :: "int \<Rightarrow> (nat \<Rightarrow> string) \<Rightarrow> Date \<Rightarrow> Date \<Rightarrow> sweep \<Rightarrow> (error + unit) \<times> sweep" where
  "updateOverdueStatus tz uuid now today s =
     forEach (updateOverdueStatus_one uuid now) (findOverdue tz today (snd s)) s"

subsection \<open>\<open>checkDueARs\<close>\<close>

definition dueCustomerParams :: "ARState \<Rightarrow> string \<Rightarrow> QueueAlertParams" where
  "dueCustomerParams ar c =
     \<lparr> qa_ar_id = ar_id ar,
       qa_alert_type = DUE,
       qa_target_type = CUSTOMER,
       qa_delivery_chat_id = c,
       qa_delivery_platform = None,
       qa_priority = Some 3,
       qa_scheduled_for = None,
       qa_message_template =
         ''Payment Reminder: Your invoice for '' @ amountText ar
           @ '' is due today. Customer: '' @ customer_name ar,
       qa_message_data =
         [(''ar_id'', Some (ar_id ar)), (''customer_name'', Some (customer_name ar)),
          (''amount'', Some (amountText ar)), (''due_date'', Some (toISODate (due_date ar)))],
       qa_triggered_by_event_id = None,
       qa_dedup_key = Some (ar_id ar @ ''_DUE_CUSTOMER_'' @ toISODate (due_date ar)) \<rparr>"

definition dueManagerParams :: "ARState \<Rightarrow> string \<Rightarrow> QueueAlertParams" where
  "dueManagerParams ar c =
     \<lparr> qa_ar_id = ar_id ar,
       qa_alert_type = DUE,
       qa_target_type = MANAGER,
       qa_delivery_chat_id = c,
       qa_delivery_platform = None,
       qa_priority = Some 2,
       qa_scheduled_for = None,
       qa_message_template =
         ''Manager Alert: AR '' @ ar_id ar @ '' for '' @ customer_name ar
           @ '' is due today ('' @ amountText ar @ '')'',
       qa_message_data =
         [(''ar_id'', Some (ar_id ar)), (''customer_name'', Some (customer_name ar)),
          (''amount'', Some (amountText ar))],
       qa_triggered_by_event_id = None,
       qa_dedup_key = Some (ar_id ar @ ''_DUE_MANAGER_'' @ toISODate (due_date ar)) \<rparr>"

definition checkDueARs_one :: "(nat \<Rightarrow> string) \<Rightarrow> Date \<Rightarrow> ARState \<Rightarrow> sweep \<Rightarrow> (error + unit) \<times> sweep" where
  "checkDueARs_one uuid now ar s =
     andThen (ifChat (customer_chat_id ar) (\<lambda>c. queueAlert_sweep uuid now (dueCustomerParams ar c)) s)
       (ifChat (manager_chat_id ar) (\<lambda>c. queueAlert_sweep uuid now (dueManagerParams ar c)))"

definition checkDueARs :: "int \<Rightarrow> (nat \<Rightarrow> string) \<Rightarrow> Date \<Rightarrow> Date \<Rightarrow> sweep \<Rightarrow> (error + unit) \<times> sweep" where
  "checkDueARs tz uuid now today s =
     forEach (checkDueARs_one uuid now) (findByDueDateAndStatus tz today PENDING (snd s)) s"

subsection \<open>\<open>checkOverdueARs\<close>\<close>

definition daysOverdue :: "Date \<Rightarrow> ARState \<Rightarrow> int" where
  "daysOverdue today ar = (today - due_date ar) div msPerDay"

definition overdueCustomerParams :: "ARState \<Rightarrow> string \<Rightarrow> QueueAlertParams" where
  "overdueCustomerParams ar c =
     \<lparr> qa_ar_id = ar_id ar,
       qa_alert_type = OVERDUE_ALERT,
       qa_target_type = CUSTOMER,
       qa_delivery_chat_id = c,
       qa_delivery_platform = None,
       qa_priority = Some 4,
       qa_scheduled_for = None,
       qa_message_template =
         ''Payment Overdue: Your payment of '' @ amountText ar
           @ '' is now 7 days overdue. Please settle immediately.'',
       qa_message_data =
         [(''home_id'', home_id ar), (''customer_name'', Some (customer_name ar)),
          (''amount'', Some (amountText ar)), (''due_date'', Some (toISODate (due_date ar))),
          (''days_overdue'', Some ''7'')],
       qa_triggered_by_event_id = None,
       qa_dedup_key = Some (ar_id ar @ ''_OVERDUE_CUSTOMER_'' @ toISODate (due_date ar) @ ''_D7'') \<rparr>"

definition escalationCustomerParams :: "Date \<Rightarrow> ARState \<Rightarrow> string \<Rightarrow> QueueAlertParams" where
  "escalationCustomerParams today ar c =
     \<lparr> qa_ar_id = ar_id ar,
       qa_alert_type = ESCALATION,
       qa_target_type = CUSTOMER,
       qa_delivery_chat_id = c,
       qa_delivery_platform = None,
       qa_priority = Some 5,
       qa_scheduled_for = None,
       qa_message_template =
         ''Payment Overdue: Your payment of '' @ amountText ar @ '' is now ''
           @ number_toString (daysOverdue today ar) @ '' days overdue. Please settle immediately.'',
       qa_message_data =
         [(''home_id'', home_id ar), (''customer_name'', Some (customer_name ar)),
          (''amount'', Some (amountText ar)), (''due_date'', Some (toISODate (due_date ar))),
          (''days_overdue'', Some (number_toString (daysOverdue today ar)))],
       qa_triggered_by_event_id = None,
       qa_dedup_key = Some (ar_id ar @ ''_ESCALATION_CUSTOMER_'' @ toISODate (due_date ar)) \<rparr>"

definition escalationManagerParams :: "Date \<Rightarrow> ARState \<Rightarrow> string \<Rightarrow> QueueAlertParams" where
  "escalationManagerParams today ar c =
     \<lparr> qa_ar_id = ar_id ar,
       qa_alert_type = ESCALATION,
       qa_target_type = MANAGER,
       qa_delivery_chat_id = c,
       qa_delivery_platform = None,
       qa_priority = Some 5,
       qa_scheduled_for = None,
       qa_message_template =
         ''ESCALATION Alert: AR '' @ ar_id ar @ '' for '' @ customer_name ar @ '' ('' @ templateText (home_id ar)
           @ '') is '' @ number_toString (daysOverdue today ar) @ '' days overdue (''
           @ amountText ar @ '')'',
       qa_message_data =
         [(''ar_id'', Some (ar_id ar)), (''home_id'', home_id ar),
          (''customer_name'', Some (customer_name ar)),
          (''amount'', Some (amountText ar)),
          (''days_overdue'', Some (number_toString (daysOverdue today ar)))],
       qa_triggered_by_event_id = None,
       qa_dedup_key = Some (ar_id ar @ ''_ESCALATION_MANAGER_'' @ toISODate (due_date ar)) \<rparr>"

definition checkOverdueARs_escalate :: "(nat \<Rightarrow> string) \<Rightarrow> Date \<Rightarrow> Date \<Rightarrow> ARState \<Rightarrow> sweep \<Rightarrow> (error + unit) \<times> sweep" where
  "checkOverdueARs_escalate uuid now today ar s =
     andThen
       (ifChat (customer_chat_id ar) (\<lambda>c. queueAlert_sweep uuid now (escalationCustomerParams today ar c)) s)
       (ifChat (manager_chat_id ar) (\<lambda>c. queueAlert_sweep uuid now (escalationManagerParams today ar c)))"

definition checkOverdueARs_one :: "(nat \<Rightarrow> string) \<Rightarrow> Date \<Rightarrow> Date \<Rightarrow> ARState \<Rightarrow> sweep \<Rightarrow> (error + unit) \<times> sweep" where
  "checkOverdueARs_one uuid now today ar s =
     andThen
       (ifCond (daysOverdue today ar = 7)
          (ifChat (customer_chat_id ar) (\<lambda>c. queueAlert_sweep uuid now (overdueCustomerParams ar c))) s)
       (ifCond (4 \<le> daysOverdue today ar \<and> daysOverdue today ar \<le> 7)
          (checkOverdueARs_escalate uuid now today ar))"

definition checkOverdueARs :: "int \<Rightarrow> (nat \<Rightarrow> string) \<Rightarrow> Date \<Rightarrow> Date \<Rightarrow> sweep \<Rightarrow> (error + unit) \<times> sweep" where
  "checkOverdueARs tz uuid now today s =
     forEach (checkOverdueARs_one uuid now today) (findOverdue tz today (snd s)) s"

subsection \<open>\<open>checkPreAlerts\<close>\<close>

definition preAlertParams :: "int \<Rightarrow> ARState \<Rightarrow> string \<Rightarrow> QueueAlertParams" where
  "preAlertParams days ar c =
     \<lparr> qa_ar_id = ar_id ar,
       qa_alert_type = PRE_ALERT,
       qa_target_type = CUSTOMER,
       qa_delivery_chat_id = c,
       qa_delivery_platform = None,
       qa_priority = Some 2,
       qa_scheduled_for = None,
       qa_message_template =
         ''Payment Reminder: Your payment of '' @ amountText ar @ '' is due in ''
           @ number_toString days @ '' days ('' @ toISODate (due_date ar) @ '').'',
       qa_message_data =
         [(''amount'', Some (amountText ar)), (''days'', Some (number_toString days)),
          (''due_date'', Some (toISODate (due_date ar)))],
       qa_triggered_by_event_id = None,
       qa_dedup_key = Some (ar_id ar @ ''_PRE_ALERT_CUSTOMER_'' @ toISODate (due_date ar)) \<rparr>"

definition checkPreAlerts_one :: "(nat \<Rightarrow> string) \<Rightarrow> Date \<Rightarrow> int \<Rightarrow> ARState \<Rightarrow> sweep \<Rightarrow> (error + unit) \<times> sweep" where
  "checkPreAlerts_one uuid now days ar s =
     ifChat (customer_chat_id ar) (\<lambda>c. queueAlert_sweep uuid now (preAlertParams days ar c)) s"

definition checkPreAlerts :: "int \<Rightarrow> int \<Rightarrow> (nat \<Rightarrow> string) \<Rightarrow> Date \<Rightarrow> Date \<Rightarrow> sweep \<Rightarrow> (error + unit) \<times> sweep" where
  "checkPreAlerts tz days uuid now today s =
     forEach (checkPreAlerts_one uuid now days)
       (findByDueDateAndStatus tz (setDate tz today (getDate tz today + days)) PENDING (snd s)) s"

subsection \<open>\<open>ensureFutureARs\<close>\<close>

definition monthDiff :: "int \<Rightarrow> Date \<Rightarrow> Date \<Rightarrow> int" where
  "monthDiff tz normalizedBase normalizedToday =
     (getFullYear tz normalizedToday - getFullYear tz normalizedBase) * 12
       + (getMonth tz normalizedToday - getMonth tz normalizedBase)"

definition getNextDueDate_candidate :: "int \<Rightarrow> Date \<Rightarrow> Date \<Rightarrow> Date" where
  "getNextDueDate_candidate tz normalizedBase normalizedToday =
     (if addMonths tz normalizedBase (monthDiff tz normalizedBase normalizedToday) \<le> normalizedToday
      then addMonths tz (addMonths tz normalizedBase (monthDiff tz normalizedBase normalizedToday)) 1
      else addMonths tz normalizedBase (monthDiff tz normalizedBase normalizedToday))"

definition getNextDueDate :: "int \<Rightarrow> Date \<Rightarrow> Date \<Rightarrow> Date" where
  "getNextDueDate tz baseDueDate today =
     (if toLocalMidnight tz today < toLocalMidnight tz baseDueDate then toLocalMidnight tz baseDueDate
      else getNextDueDate_candidate tz (toLocalMidnight tz baseDueDate) (toLocalMidnight tz today))"

definition dueKey :: "int \<Rightarrow> Date \<Rightarrow> string" where
  "dueKey tz d = toISODate (toLocalMidnight tz d)"

text \<open>The homes in the order the map \<open>arsByHome\<close> gets them.\<close>

definition homes_of :: "ARState list \<Rightarrow> string option list" where
  "homes_of ars = rev (remdups (rev (map home_id ars)))"

text \<open>\<open>activeArs.reduce((latest, current) => current.due_date > latest.due_date ? current : latest)\<close>.\<close>

definition latestDue :: "ARState \<Rightarrow> ARState list \<Rightarrow> ARState" where
  "latestDue first others =
     foldl (\<lambda>latest current. if due_date latest < due_date current then current else latest)
       first others"

text \<open>The state of the loop over the months: the set \<open>existingDueDates\<close> and the run's state.\<close>

definition ensureFutureARs_create ::
  "(nat \<Rightarrow> string) \<Rightarrow> Date \<Rightarrow> Date \<Rightarrow> ARState \<Rightarrow> Date \<Rightarrow> string \<Rightarrow> string list \<times> sweep
   \<Rightarrow> (error + unit) \<times> string list \<times> sweep" where
  "ensureFutureARs_create uuid now today template dueDate k st =
     (case CreateARCommand_execute (uuid (fst (snd st))) (uuid (fst (snd st) + 1)) now
             (nextMonthARData template (Some today) dueDate) (snd (snd st)) of
        (Inl e, w') \<Rightarrow> (Inl e, (fst st, (fst (snd st) + 2, w')))
      | (Inr new_id, w') \<Rightarrow> (Inr (), (k # fst st, (fst (snd st) + 2, w'))))"

definition ensureFutureARs_month ::
  "(nat \<Rightarrow> string) \<Rightarrow> Date \<Rightarrow> Date \<Rightarrow> string option \<Rightarrow> ARState \<Rightarrow> Date \<Rightarrow> string \<Rightarrow> string list \<times> sweep
   \<Rightarrow> (error + unit) \<times> string list \<times> sweep" where
  "ensureFutureARs_month uuid now today h template dueDate k st =
     (if k \<in> set (fst st) then (Inr (), st)
      else (case findByHomeIdAndDueDate h dueDate (snd (snd st)) of
              Some existing \<Rightarrow> (Inr (), (k # fst st, snd st))
            | None \<Rightarrow> ensureFutureARs_create uuid now today template dueDate k st))"

definition ensureFutureARs_months ::
  "int \<Rightarrow> (nat \<Rightarrow> string) \<Rightarrow> Date \<Rightarrow> Date \<Rightarrow> int \<Rightarrow> string option \<Rightarrow> ARState \<Rightarrow> Date \<Rightarrow> string list \<times> sweep
   \<Rightarrow> (error + unit) \<times> string list \<times> sweep" where
  "ensureFutureARs_months tz uuid now today months h template nextDue st =
     forEach (\<lambda>i. ensureFutureARs_month uuid now today h template
                    (addMonths tz nextDue (int i)) (dueKey tz (addMonths tz nextDue (int i))))
       [0 ..< nat months] st"

definition ensureFutureARs_home ::
  "int \<Rightarrow> (nat \<Rightarrow> string) \<Rightarrow> Date \<Rightarrow> Date \<Rightarrow> int \<Rightarrow> ARState list \<Rightarrow> string option \<Rightarrow> sweep
   \<Rightarrow> (error + unit) \<times> sweep" where
  "ensureFutureARs_home tz uuid now today months allARs h s =
     (case filter (\<lambda>ar. current_status ar \<noteq> WRITTEN_OFF) (filter (\<lambda>ar. home_id ar = h) allARs) of
        [] \<Rightarrow> (Inr (), s)
      | first # others \<Rightarrow>
          (case ensureFutureARs_months tz uuid now today months h (latestDue first others)
                  (getNextDueDate tz (due_date (latestDue first others)) today)
                  (map (\<lambda>ar. dueKey tz (due_date ar)) (filter (\<lambda>ar. home_id ar = h) allARs), s) of
             (r, st) \<Rightarrow> (r, snd st)))"

definition ensureFutureARs ::
  "int \<Rightarrow> int \<Rightarrow> (nat \<Rightarrow> string) \<Rightarrow> Date \<Rightarrow> Date \<Rightarrow> sweep \<Rightarrow> (error + unit) \<times> sweep" where
  "ensureFutureARs tz months uuid now today s =
     (if months \<le> 0 then (Inr (), s)
      else forEach (ensureFutureARs_home tz uuid now today months (findAll (snd s)))
             (homes_of (findAll (snd s))) s)"

subsection \<open>\<open>run\<close>\<close>

definition run_steps ::
  "int \<Rightarrow> DateCheckerConfig \<Rightarrow> (nat \<Rightarrow> string) \<Rightarrow> Date \<Rightarrow> Date \<Rightarrow> sweep \<Rightarrow> (error + unit) \<times> sweep" where
  "run_steps tz cfg uuid now today s =
     andThen (updateOverdueStatus tz uuid now today s)
       (\<lambda>s1. andThen (checkDueARs tz uuid now today s1)
          (\<lambda>s2. andThen (checkOverdueARs tz uuid now today s2)
             (\<lambda>s3. andThen (checkPreAlerts tz (prealertDays cfg) uuid now today s3)
                (ensureFutureARs tz (futureArMonthsAhead cfg) uuid now today))))"

definition run ::
  "int \<Rightarrow> DateCheckerConfig \<Rightarrow> (nat \<Rightarrow> string) \<Rightarrow> Date \<Rightarrow> world \<Rightarrow> (error + unit) \<times> world" where
  "run tz cfg uuid now w =
     (case run_steps tz cfg uuid now (setHours0 tz now) (0, w) of (r, s) \<Rightarrow> (r, snd s))"

section \<open>Example data\<close>

definition exampleCreated :: Event where
  "exampleCreated =
     \<lparr> event_id = ''e1'', event_ar_id = ''a1'', timestamp = 1735689600000,
       actor = systemActor, metadata = metadataV1,
       payload = ARCreated
         \<lparr> p_customer_id = None, p_home_id = Some ''B101'', p_zone = Some ''Sros'',
           p_customer_name = ''Dara'',
           p_amount = \<lparr> money_value = 1000, currency = ''USD'' \<rparr>,
           p_invoice_date = 1735689600000, p_due_date = 1738281600000,
           p_assigned_sales_id = None, p_customer_chat_id = Some ''c1'',
           p_manager_chat_id = Some ''m1'' \<rparr> \<rparr>"

definition exampleFollowUp :: Event where
  "exampleFollowUp =
     \<lparr> event_id = ''e2'', event_ar_id = ''a1'', timestamp = 1735776000000,
       actor = \<lparr> actor_type = ACTOR_SALES, user_id = Some ''u1'' \<rparr>, metadata = metadataV1,
       payload = FollowUpLogged ''called'' None None \<rparr>"

definition exampleAR :: ARState where
  "exampleAR =
     \<lparr> ar_id = ''a1'', home_id = Some ''B101'', zone = Some ''Sros'',
       customer_name = ''Dara'',
       amount = \<lparr> money_value = 1000, currency = ''USD'' \<rparr>,
       current_status = PENDING, invoice_date = 1735689600000, due_date = 1738281600000,
       paid_date = None, assigned_sales_id = None, customer_chat_id = Some ''c1'',
       manager_chat_id = Some ''m1'', last_event_id = ''e1'', last_event_at = 1735689600000,
       event_count = 1, version = 1 \<rparr>"

definition exampleWorld :: world where
  "exampleWorld = \<lparr> events = [exampleCreated], ar_state = [exampleAR], alert_queue = [] \<rparr>"

definition exampleStatusDTO :: ChangeARStatusDTO where
  "exampleStatusDTO =
     \<lparr> cs_ar_id = ''a1'', cs_new_status = OVERDUE, cs_reason = ''Due date passed'',
       cs_actor = systemActor \<rparr>"

definition exampleAlert :: Alert where
  "exampleAlert =
     \<lparr> alert_id = ''al1'', alert_ar_id = ''a1'', dedup_key = None, alert_type = DUE,
       target_type = CUSTOMER, priority = 3,
       delivery_address = \<lparr> platform = ''TELEGRAM'', chat_id = ''c1'' \<rparr>,
       message_template = ''Payment Reminder'', message_data = [],
       status = QUEUED, attempts = 0, max_attempts = 3, scheduled_for = 1738281600000,
       sent_at = None, failed_at = None, alert_error = None, triggered_by_event_id = [] \<rparr>"

definition examplePayment :: VerifyPaymentDTO where
  "examplePayment =
     \<lparr> vp_ar_id = ''a1'', vp_paid_amount = \<lparr> money_value = 1000, currency = ''USD'' \<rparr>,
       vp_payment_date = 1738281600000, vp_verification_method = ''BANK_STATEMENT'',
       vp_verified_by = ''m1'' \<rparr>"

definition exampleNextMonth :: "CreateNextMonthARDTO \<Rightarrow> world \<Rightarrow> (error + string) \<times> world" where
  "exampleNextMonth = CreateNextMonthARCommand_execute tzPhnomPenh ''a2'' ''e3'' 1748736000000"

definition examplePaidAR :: ARState where
  "examplePaidAR =
     exampleAR\<lparr> current_status := PAID, paid_date := Some 1738281600000, last_event_id := ''e2'',
                 last_event_at := 1738281600000, event_count := 2, version := 2 \<rparr>"

text \<open>A further pending AR of the same home, with a given identity and due date.\<close>

definition exampleNextAR :: "string \<Rightarrow> string \<Rightarrow> Date \<Rightarrow> ARState" where
  "exampleNextAR new_ar_id new_event_id due =
     exampleAR\<lparr> ar_id := new_ar_id, invoice_date := 1738281600000, due_date := due,
                 last_event_id := new_event_id, last_event_at := 1738281600000 \<rparr>"

definition examplePaidWorld :: world where
  "examplePaidWorld =
     snd (VerifyPaymentCommand_execute
            (CreateNextMonthARCommand_execute tzPhnomPenh ''a2'' ''e3'' 1738281600000)
            ''e2'' 1738281600000 examplePayment exampleWorld)"

text \<open>
  For the date checker: an AR due at local midnight of 2025-01-31 (Asia/Phnom_Penh), a run at
  09:00 local time on 2025-02-07, seven days later, and the identities the run draws.
\<close>

definition exampleOverdueAR :: ARState where
  "exampleOverdueAR = exampleAR\<lparr> due_date := 1738256400000 \<rparr>"

definition exampleOverdueCreated :: Event where
  "exampleOverdueCreated =
     exampleCreated\<lparr> payload := ARCreated
       \<lparr> p_customer_id = None, p_home_id = Some ''B101'', p_zone = Some ''Sros'',
           p_customer_name = ''Dara'',
         p_amount = \<lparr> money_value = 1000, currency = ''USD'' \<rparr>,
         p_invoice_date = 1735689600000, p_due_date = 1738256400000,
         p_assigned_sales_id = None, p_customer_chat_id = Some ''c1'',
         p_manager_chat_id = Some ''m1'' \<rparr> \<rparr>"

definition exampleSweepWorld :: world where
  "exampleSweepWorld =
     \<lparr> events = [exampleOverdueCreated], ar_state = [exampleOverdueAR], alert_queue = [] \<rparr>"

definition exampleUuid :: "nat \<Rightarrow> string" where
  "exampleUuid n = CHR ''u'' # digits n"

definition exampleConfig :: DateCheckerConfig where
  "exampleConfig = \<lparr> cfg_prealertDays = None, cfg_futureArMonthsAhead = None \<rparr>"

definition examplePromotedWorld :: world where
  "examplePromotedWorld =
     \<lparr> events = [exampleOverdueCreated,
                 statusChangedEvent ''u0'' 1738893600000 (overdueStatusDTO exampleOverdueAR)
                   exampleOverdueAR],
       ar_state = [exampleOverdueAR\<lparr> current_status := OVERDUE \<rparr>], alert_queue = [] \<rparr>"

section \<open>Auxiliary definitions\<close>

text \<open>The stores once the payment is recorded: the event appended, the snapshot saved.\<close>

definition verifiedWorld :: "string \<Rightarrow> Date \<Rightarrow> VerifyPaymentDTO \<Rightarrow> ARState \<Rightarrow> world \<Rightarrow> world" where
  "verifiedWorld new_event_id now dto ar w =
     snd (save (markedPaid new_event_id now dto ar)
            (snd (append None (paymentVerifiedEvent new_event_id now dto) w)))"

text \<open>What the statements below show of a snapshot: identity, home, status, due day (UTC).\<close>

definition arSummary :: "ARState \<Rightarrow> string \<times> string option \<times> ARStatus \<times> string" where
  "arSummary d = (ar_id d, home_id d, current_status d, toISODate (due_date d))"

text \<open>What the statements below show of a queued alert.\<close>

definition alertSummary :: "Alert \<Rightarrow> string \<times> AlertType \<times> TargetType \<times> string \<times> string option" where
  "alertSummary a = (alert_id a, alert_type a, target_type a, chat_id (delivery_address a), dedup_key a)"

section \<open>Properties of the replay\<close>

lemma payload_type_AR_CREATED:
  "(payload_type p = AR_CREATED) = (\<exists>c. p = ARCreated c)"
  by (cases p) simp_all

lemma replayEvents_Cons_created:
  "payload e = ARCreated p \<Longrightarrow>
   replayEvents (e # rest) = Inr (applyEvents (initializeFromCreatedEvent e p) rest)"
  by (simp add: replayEvents_def)

lemma replayEvents_Cons_other:
  "payload_type (payload e) \<noteq> AR_CREATED \<Longrightarrow>
   replayEvents (e # rest) = Inl (Error ''First event must be AR_CREATED'')"
  by (cases "payload e") (simp_all add: replayEvents_def)

text \<open>
  C4. \<open>replayEvents\<close> takes the event sequence and nothing else (no store, no clock,
  no identity is drawn), so two calls on one sequence are one value. On a sequence that is
  not empty and starts with an \<open>AR_CREATED\<close> event it returns a snapshot, exactly one; on
  the empty sequence and on a sequence that starts with another kind of event it fails
  with the error for an invalid sequence.
\<close>

theorem replayEvents_deterministic:
  "(es \<noteq> [] \<and> event_type (hd es) = AR_CREATED \<longrightarrow>
      (\<exists>!state. replayEvents es = Inr state))
   \<and> (es = [] \<longrightarrow> replayEvents es = Inl (Error ''Cannot replay from empty event list''))
   \<and> (es \<noteq> [] \<and> event_type (hd es) \<noteq> AR_CREATED \<longrightarrow>
        replayEvents es = Inl (Error ''First event must be AR_CREATED''))"
proof (cases es)
  case Nil
  then show ?thesis by (simp add: replayEvents_def)
next
  case (Cons e rest)
  show ?thesis
  proof (cases "payload_type (payload e) = AR_CREATED")
    case True
    then obtain p where "payload e = ARCreated p"
      by (auto simp: payload_type_AR_CREATED)
    then show ?thesis
      using Cons True by (simp add: replayEvents_Cons_created event_type_def)
  next
    case False
    then show ?thesis
      using Cons by (simp add: replayEvents_Cons_other event_type_def)
  qed
qed

theorem replayEvents_deterministic_witness:
  "(\<exists>!state. replayEvents [exampleCreated, exampleFollowUp] = Inr state)
   \<and> replayEvents [] = Inl (Error ''Cannot replay from empty event list'')
   \<and> replayEvents [exampleFollowUp, exampleCreated] = Inl (Error ''First event must be AR_CREATED'')"
  using replayEvents_deterministic [of "[exampleCreated, exampleFollowUp]"]
    replayEvents_deterministic [of "[]"]
    replayEvents_deterministic [of "[exampleFollowUp, exampleCreated]"]
  by (simp add: event_type_def exampleCreated_def exampleFollowUp_def)

text \<open>
  C5. The replay starts from the creation event with status \<open>PENDING\<close> (the payload holds
  no status that could say otherwise) and folds the events that follow in order. A
  \<open>STATUS_CHANGED\<close> event overwrites the status with the payload's new status; a
  \<open>PAYMENT_VERIFIED\<close> event sets the status to \<open>PAID\<close> and the paid date; a
  \<open>DUE_DATE_CHANGED\<close> event overwrites the due date; a \<open>FOLLOW_UP_LOGGED\<close> event, the
  alert events, an event of a kind outside the enumeration and a later \<open>AR_CREATED\<close> event
  change no business field. Every folded event sets the last event's identity and time
  and adds one to the event count.
\<close>

theorem replay_transitions:
  "current_status (initializeFromCreatedEvent e p) = PENDING
   \<and> replayEvents (e\<lparr> payload := ARCreated p \<rparr> # rest) =
       Inr (applyEvents (initializeFromCreatedEvent (e\<lparr> payload := ARCreated p \<rparr>) p) rest)
   \<and> applyEvents s [] = s
   \<and> applyEvents s (ev # evs) = applyEvents (applyEvent s ev) evs
   \<and> applyEvent s (ev\<lparr> payload := StatusChanged old_status new_status reason \<rparr>) =
       s\<lparr> last_event_id := event_id ev, last_event_at := timestamp ev,
          event_count := event_count s + 1, current_status := new_status \<rparr>
   \<and> applyEvent s (ev\<lparr> payload := PaymentVerified paid_amount payment_date method verifier \<rparr>) =
       s\<lparr> last_event_id := event_id ev, last_event_at := timestamp ev,
          event_count := event_count s + 1, current_status := PAID,
          paid_date := Some payment_date \<rparr>
   \<and> applyEvent s (ev\<lparr> payload := DueDateChanged old_due new_due why \<rparr>) =
       s\<lparr> last_event_id := event_id ev, last_event_at := timestamp ev,
          event_count := event_count s + 1, due_date := new_due \<rparr>
   \<and> applyEvent s (ev\<lparr> payload := FollowUpLogged notes next_action next_action_date \<rparr>) =
       s\<lparr> last_event_id := event_id ev, last_event_at := timestamp ev,
          event_count := event_count s + 1 \<rparr>
   \<and> applyEvent s (ev\<lparr> payload := AlertQueued aid atype ttype prio sched \<rparr>) =
       s\<lparr> last_event_id := event_id ev, last_event_at := timestamp ev,
          event_count := event_count s + 1 \<rparr>
   \<and> applyEvent s (ev\<lparr> payload := AlertSent aid2 sent plat did \<rparr>) =
       s\<lparr> last_event_id := event_id ev, last_event_at := timestamp ev,
          event_count := event_count s + 1 \<rparr>
   \<and> applyEvent s (ev\<lparr> payload := AlertFailed aid3 failed err n \<rparr>) =
       s\<lparr> last_event_id := event_id ev, last_event_at := timestamp ev,
          event_count := event_count s + 1 \<rparr>
   \<and> applyEvent s (ev\<lparr> payload := OtherPayload kind \<rparr>) =
       s\<lparr> last_event_id := event_id ev, last_event_at := timestamp ev,
          event_count := event_count s + 1 \<rparr>
   \<and> applyEvent s (ev\<lparr> payload := ARCreated p \<rparr>) =
       s\<lparr> last_event_id := event_id ev, last_event_at := timestamp ev,
          event_count := event_count s + 1 \<rparr>"
  by (simp add: initializeFromCreatedEvent_def replayEvents_def applyEvent_def
        applyEvent_updated_def)

section \<open>Properties of \<open>isOverdue\<close>\<close>

lemma setHours0_day:
  "setHours0 tz t = Day (LocalTime tz t) * msPerDay - tz"
  by (simp add: setHours0_def MakeDate_def)

lemma setHours0_less_iff:
  "(setHours0 tz a < setHours0 tz b) = (Day (LocalTime tz a) < Day (LocalTime tz b))"
  by (simp add: setHours0_day msPerDay_def)

text \<open>
  C10. For an AR whose status is \<open>PAID\<close> or \<open>WRITTEN_OFF\<close>, \<open>isOverdue\<close> is false
  whatever the two dates are. For the other statuses it is true exactly when the current
  date, set to local midnight, is after the due date set to local midnight, that is when
  the local calendar day of the current date is after that of the due date.
\<close>

theorem isOverdue_spec:
  "(current_status ar = PAID \<or> current_status ar = WRITTEN_OFF \<longrightarrow>
      \<not> isOverdue tz ar currentDate)
   \<and> (current_status ar \<noteq> PAID \<and> current_status ar \<noteq> WRITTEN_OFF \<longrightarrow>
        isOverdue tz ar currentDate =
          (toLocalMidnight tz (due_date ar) < toLocalMidnight tz currentDate))
   \<and> (toLocalMidnight tz (due_date ar) < toLocalMidnight tz currentDate) =
        (Day (LocalTime tz (due_date ar)) < Day (LocalTime tz currentDate))"
  by (simp add: isOverdue_def toLocalMidnight_def setHours0_less_iff)

theorem isOverdue_spec_witness:
  "\<not> isOverdue tzPhnomPenh (exampleAR\<lparr> current_status := PAID \<rparr>) 1739000000000
   \<and> isOverdue tzPhnomPenh exampleAR 1739000000000
   \<and> \<not> isOverdue tzPhnomPenh exampleAR 1738300000000"
  using isOverdue_spec [of "exampleAR\<lparr> current_status := PAID \<rparr>" tzPhnomPenh 1739000000000]
    isOverdue_spec [of exampleAR tzPhnomPenh 1739000000000]
    isOverdue_spec [of exampleAR tzPhnomPenh 1738300000000]
  by (simp add: exampleAR_def tzPhnomPenh_def Day_def LocalTime_def msPerDay_def)

section \<open>Properties of the event store\<close>

lemma append_duplicate:
  "event_id event \<in> set (map event_id (events w)) \<Longrightarrow> append None event w = (Inr (), w)"
  by (simp add: append_def insertOne_event_def error_code_def)

lemma append_fresh:
  "event_id event \<notin> set (map event_id (events w)) \<Longrightarrow>
   append None event w = (Inr (), w\<lparr> events := events w @ [event] \<rparr>)"
  by (simp add: append_def insertOne_event_def)

lemma append_fault:
  "error_code e \<noteq> Some 11000 \<Longrightarrow> append (Some e) event w = (Inl e, w)"
  by (simp add: append_def insertOne_event_def)

text \<open>
  C9. Appending an event whose identity is already in the log returns without an error
  and leaves the log as it was (so a second append of one event changes nothing); an
  event with a new identity is added at the end. An error of the infrastructure that is
  not the duplicate-key error reaches the caller, and the log is unchanged.
\<close>

theorem append_idempotent:
  "(event_id event \<in> set (map event_id (events w)) \<longrightarrow> append None event w = (Inr (), w))
   \<and> (event_id event \<notin> set (map event_id (events w)) \<longrightarrow>
        append None event w = (Inr (), w\<lparr> events := events w @ [event] \<rparr>))
   \<and> append None event (snd (append None event w)) = (Inr (), snd (append None event w))
   \<and> (error_code e \<noteq> Some 11000 \<longrightarrow> append (Some e) event w = (Inl e, w))"
proof -
  have twice: "append None event (snd (append None event w)) = (Inr (), snd (append None event w))"
  proof (cases "event_id event \<in> set (map event_id (events w))")
    case True
    then show ?thesis by (simp add: append_duplicate)
  next
    case False
    then show ?thesis by (simp add: append_fresh append_duplicate)
  qed
  show ?thesis
    using twice by (simp add: append_duplicate append_fresh append_fault)
qed

theorem append_idempotent_witness:
  "append None exampleCreated exampleWorld = (Inr (), exampleWorld)
   \<and> append None exampleFollowUp exampleWorld =
       (Inr (), exampleWorld\<lparr> events := [exampleCreated, exampleFollowUp] \<rparr>)
   \<and> append (Some (Error ''connection lost'')) exampleFollowUp exampleWorld =
       (Inl (Error ''connection lost''), exampleWorld)"
  using append_idempotent [of exampleCreated exampleWorld "Error ''x''"]
    append_idempotent [of exampleFollowUp exampleWorld "Error ''connection lost''"]
  by (simp add: exampleWorld_def exampleCreated_def exampleFollowUp_def error_code_def)

section \<open>Properties of the commands\<close>

lemma find_updateOne:
  "find P xs = Some x \<Longrightarrow> P (f x) \<Longrightarrow> find P (updateOne P f xs) = Some (f x)"
  by (induction xs) (auto split: if_splits)

lemma findById_updateStatus:
  "findById a w = Some ar \<Longrightarrow>
   findById a (updateStatus a st w) = Some (ar\<lparr> current_status := st \<rparr>)"
proof -
  assume h: "findById a w = Some ar"
  then have "ar_id ar = a"
    by (auto simp: findById_def find_Some_iff)
  with h show ?thesis
    by (simp add: findById_def updateStatus_def find_updateOne)
qed

text \<open>
  C6. For an AR that exists: the change-status command with the status the AR already has
  leaves the stores as they were (no event, the snapshot with its version unchanged), and
  returns normally when its input is valid. With a different status, valid input and a
  new event identity it appends exactly one \<open>STATUS_CHANGED\<close> event and sets the status
  of the snapshot.
\<close>

theorem changeStatus_noop_or_one_event:
  assumes "findById (cs_ar_id dto) w = Some ar"
  shows "(current_status ar = cs_new_status dto \<longrightarrow>
            snd (ChangeARStatusCommand_execute new_event_id now dto w) = w)
         \<and> (current_status ar = cs_new_status dto
              \<and> ChangeARStatusCommand_validateInput dto = None \<longrightarrow>
              ChangeARStatusCommand_execute new_event_id now dto w = (Inr (), w))
         \<and> (current_status ar \<noteq> cs_new_status dto
              \<and> ChangeARStatusCommand_validateInput dto = None
              \<and> new_event_id \<notin> set (map event_id (events w)) \<longrightarrow>
              fst (ChangeARStatusCommand_execute new_event_id now dto w) = Inr ()
              \<and> events (snd (ChangeARStatusCommand_execute new_event_id now dto w)) =
                  events w @ [statusChangedEvent new_event_id now dto ar]
              \<and> event_type (statusChangedEvent new_event_id now dto ar) = STATUS_CHANGED
              \<and> findById (cs_ar_id dto) (snd (ChangeARStatusCommand_execute new_event_id now dto w)) =
                  Some (ar\<lparr> current_status := cs_new_status dto \<rparr>)
              \<and> alert_queue (snd (ChangeARStatusCommand_execute new_event_id now dto w)) =
                  alert_queue w)"
proof -
  have noop: "current_status ar = cs_new_status dto \<Longrightarrow>
      snd (ChangeARStatusCommand_execute new_event_id now dto w) = w"
    using assms by (simp add: ChangeARStatusCommand_execute_def split: option.splits)
  have noop_ok: "current_status ar = cs_new_status dto \<Longrightarrow>
      ChangeARStatusCommand_validateInput dto = None \<Longrightarrow>
      ChangeARStatusCommand_execute new_event_id now dto w = (Inr (), w)"
    using assms by (simp add: ChangeARStatusCommand_execute_def)
  have change: "current_status ar \<noteq> cs_new_status dto \<Longrightarrow>
      ChangeARStatusCommand_validateInput dto = None \<Longrightarrow>
      new_event_id \<notin> set (map event_id (events w)) \<Longrightarrow>
      ChangeARStatusCommand_execute new_event_id now dto w =
        (Inr (), updateStatus (cs_ar_id dto) (cs_new_status dto)
                   (w\<lparr> events := events w @ [statusChangedEvent new_event_id now dto ar] \<rparr>))"
    using assms
    by (simp add: ChangeARStatusCommand_execute_def append_fresh statusChangedEvent_def)
  have found: "findById (cs_ar_id dto)
      (w\<lparr> events := events w @ [statusChangedEvent new_event_id now dto ar] \<rparr>) = Some ar"
    using assms by (simp add: findById_def)
  show ?thesis
    using noop noop_ok change findById_updateStatus [OF found, of "cs_new_status dto"]
    by (simp add: updateStatus_def event_type_def statusChangedEvent_def)
qed

theorem changeStatus_noop_or_one_event_witness:
  "ChangeARStatusCommand_execute ''e9'' 1738972800000 (exampleStatusDTO\<lparr> cs_new_status := PENDING \<rparr>)
     exampleWorld = (Inr (), exampleWorld)
   \<and> events (snd (ChangeARStatusCommand_execute ''e9'' 1738972800000 exampleStatusDTO exampleWorld)) =
       [exampleCreated, statusChangedEvent ''e9'' 1738972800000 exampleStatusDTO exampleAR]
   \<and> findById ''a1'' (snd (ChangeARStatusCommand_execute ''e9'' 1738972800000 exampleStatusDTO exampleWorld)) =
       Some (exampleAR\<lparr> current_status := OVERDUE \<rparr>)"
  using changeStatus_noop_or_one_event [of "exampleStatusDTO\<lparr> cs_new_status := PENDING \<rparr>" exampleWorld
      exampleAR "''e9''" 1738972800000]
    changeStatus_noop_or_one_event [of exampleStatusDTO exampleWorld exampleAR "''e9''" 1738972800000]
  by (simp add: exampleStatusDTO_def exampleWorld_def exampleAR_def exampleCreated_def
        findById_def ChangeARStatusCommand_validateInput_def blank_def is_space_def)

section \<open>Concrete dates\<close>

lemmas calendar_defs =
  civil_from_days_def civil_of_era_doe_def mp_of_doy_def doy_of_doe_def yoe_of_doe_def
  days_from_civil_def days_from_march_year_def YearFromTime_def MonthFromTime_def
  DateFromTime_def MakeDay_def MakeDate_def Day_def TimeWithinDay_def msPerDay_def
  LocalTime_def

lemmas date_defs =
  getFullYear_def getMonth_def getDate_def setMonth_def setDate_def setHours0_def
  setHoursEndOfDay_def tzPhnomPenh_def

lemma jan31_fields:
  "getFullYear tzPhnomPenh 1738281600000 = 2025"
  "getMonth tzPhnomPenh 1738281600000 = 0"
  "getDate tzPhnomPenh 1738281600000 = 31"
  by (simp_all add: date_defs calendar_defs)

lemma jan31_setMonth: "setMonth tzPhnomPenh 1738281600000 1 = 1740960000000"
  by (simp add: date_defs calendar_defs)

lemma mar3_fields:
  "getMonth tzPhnomPenh 1740960000000 = 2"
  "getDate tzPhnomPenh 1740960000000 = 3"
  by (simp_all add: date_defs calendar_defs)

lemma mar3_setDate0: "setDate tzPhnomPenh 1740960000000 0 = 1740700800000"
  by (simp add: date_defs calendar_defs)

lemma feb28_fields:
  "getMonth tzPhnomPenh 1740700800000 = 1"
  "getDate tzPhnomPenh 1740700800000 = 28"
  by (simp_all add: date_defs calendar_defs)

lemma jan31_addMonths: "addMonths tzPhnomPenh 1738281600000 1 = 1740700800000"
  unfolding addMonths_def jan31_fields
  by (simp add: jan31_setMonth mar3_fields mar3_setDate0)

lemma iso_dates:
  "toISODate 1738281600000 = ''2025-01-31''"
  "toISODate 1740960000000 = ''2025-03-03''"
  "toISODate 1740700800000 = ''2025-02-28''"
  by (simp_all add: toISODate_def year_string_def pad_zero_def digit_char_def calendar_defs
        digits.simps)

section \<open>Properties of the delivery\<close>

lemma find_updateOne_const:
  "list_ex P xs \<Longrightarrow> P y \<Longrightarrow> find P (updateOne P (\<lambda>d. y) xs) = Some y"
  by (induction xs) auto

lemma find_append_new:
  "\<not> list_ex P xs \<Longrightarrow> P y \<Longrightarrow> find P (xs @ [y]) = Some y"
  by (induction xs) auto

lemma find_saveAlert:
  "find (\<lambda>d. alert_id d = alert_id a) (alert_queue (saveAlert a w)) = Some a"
  by (simp add: saveAlert_def find_updateOne_const find_append_new)

lemma events_saveAlert: "events (saveAlert a w) = events w"
  by (simp add: saveAlert_def)

lemma saveAlert_twice:
  "alert_id b = alert_id a \<Longrightarrow>
   find (\<lambda>d. alert_id d = alert_id a) (alert_queue (saveAlert b (saveAlert a w))) = Some b"
  using find_saveAlert [of b "saveAlert a w"] by simp

text \<open>
  C8. A delivery attempt that fails (rendering, an unsupported platform or the channel),
  with a new identity for the audit event: the error reaches the caller of
  \<open>deliverAlert\<close>, the poller; one \<open>ALERT_FAILED\<close> event is appended; when the attempt
  counter, this attempt counted, is below the maximum, the alert is \<open>QUEUED\<close> again and
  scheduled for the failure time plus 5 minutes times \<open>2 ^ (attempts - 1)\<close>; otherwise it
  is \<open>FAILED\<close> for good, with the failure time. With the base delay of 5 minutes,
  \<open>getNextRetryTime\<close> gives 5, 10 and 20 minutes after attempts 1, 2 and 3.
\<close>

theorem delivery_failure_backoff:
  assumes "deliveryAttempt formatMessage sendMessage
             (alert\<lparr> status := PROCESSING, attempts := attempts alert + 1 \<rparr>) = Inl e"
      and "failed_event_id \<notin> set (map event_id (events w))"
  shows "fst (deliverAlert formatMessage sendMessage sent_event_id failed_event_id now alert w) = Inl e
    \<and> (\<exists>ev. events (snd (deliverAlert formatMessage sendMessage sent_event_id failed_event_id now alert w))
               = events w @ [ev]
             \<and> event_type ev = ALERT_FAILED \<and> event_id ev = failed_event_id
             \<and> event_ar_id ev = alert_ar_id alert)
    \<and> (attempts alert + 1 < max_attempts alert \<longrightarrow>
          find (\<lambda>d. alert_id d = alert_id alert)
            (alert_queue (snd (deliverAlert formatMessage sendMessage sent_event_id failed_event_id now alert w)))
          = Some (alert\<lparr> status := QUEUED, attempts := attempts alert + 1,
                          alert_error := Some (error_message e),
                          scheduled_for := now + 5 * 60 * 1000 * 2 ^ (attempts alert + 1 - 1) \<rparr>))
    \<and> (\<not> attempts alert + 1 < max_attempts alert \<longrightarrow>
          find (\<lambda>d. alert_id d = alert_id alert)
            (alert_queue (snd (deliverAlert formatMessage sendMessage sent_event_id failed_event_id now alert w)))
          = Some (alert\<lparr> status := FAILED, attempts := attempts alert + 1,
                          alert_error := Some (error_message e), failed_at := Some now \<rparr>))
    \<and> getNextRetryTime now (alert\<lparr> attempts := 1 \<rparr>) (5 * 60 * 1000) = now + 5 * 60 * 1000
    \<and> getNextRetryTime now (alert\<lparr> attempts := 2 \<rparr>) (5 * 60 * 1000) = now + 10 * 60 * 1000
    \<and> getNextRetryTime now (alert\<lparr> attempts := 3 \<rparr>) (5 * 60 * 1000) = now + 20 * 60 * 1000"
proof -
  let ?a = "alert\<lparr> status := PROCESSING, attempts := attempts alert + 1 \<rparr>"
  let ?f = "failedAlert now ?a (error_message e)"
  let ?w1 = "saveAlert ?a w"
  let ?ev = "alertFailedEvent failed_event_id now ?f (error_message e)"
  have fresh: "event_id ?ev \<notin> set (map event_id (events (saveAlert ?f ?w1)))"
    using assms(2) by (simp add: events_saveAlert alertFailedEvent_def)
  have handled: "handleDeliveryFailure failed_event_id now ?a (error_message e) ?w1 =
      (Inr (), (saveAlert ?f ?w1)\<lparr> events := events w @ [?ev] \<rparr>)"
    unfolding handleDeliveryFailure_def
    using fresh by (simp add: append_def insertOne_event_def events_saveAlert)
  have result: "deliverAlert formatMessage sendMessage sent_event_id failed_event_id now alert w =
      (Inl e, (saveAlert ?f ?w1)\<lparr> events := events w @ [?ev] \<rparr>)"
    using assms(1) handled
    by (simp add: deliverAlert_def deliverAlert_try_def deliverAlert_catch_def)
  have same_id: "alert_id ?f = alert_id ?a"
    by (simp add: failedAlert_def)
  have found: "find (\<lambda>d. alert_id d = alert_id alert) (alert_queue (saveAlert ?f ?w1)) = Some ?f"
    using saveAlert_twice [OF same_id, of w] by simp
  have ev_props: "event_type ?ev = ALERT_FAILED \<and> event_id ?ev = failed_event_id
      \<and> event_ar_id ?ev = alert_ar_id alert"
    by (simp add: alertFailedEvent_def event_type_def failedAlert_def)
  have retry: "attempts alert + 1 < max_attempts alert \<Longrightarrow>
      ?f = alert\<lparr> status := QUEUED, attempts := attempts alert + 1,
                   alert_error := Some (error_message e),
                   scheduled_for := now + 5 * 60 * 1000 * 2 ^ (attempts alert + 1 - 1) \<rparr>"
    by (simp add: failedAlert_def canRetry_def getNextRetryTime_def defaultBaseDelayMs_def)
  have final: "\<not> attempts alert + 1 < max_attempts alert \<Longrightarrow>
      ?f = alert\<lparr> status := FAILED, attempts := attempts alert + 1,
                   alert_error := Some (error_message e), failed_at := Some now \<rparr>"
    by (simp add: failedAlert_def canRetry_def)
  have times: "getNextRetryTime now (alert\<lparr> attempts := 1 \<rparr>) (5 * 60 * 1000) = now + 5 * 60 * 1000
    \<and> getNextRetryTime now (alert\<lparr> attempts := 2 \<rparr>) (5 * 60 * 1000) = now + 10 * 60 * 1000
    \<and> getNextRetryTime now (alert\<lparr> attempts := 3 \<rparr>) (5 * 60 * 1000) = now + 20 * 60 * 1000"
    by (simp add: getNextRetryTime_def)
  show ?thesis
    unfolding result
    using found ev_props retry final times by auto
qed

theorem delivery_failure_backoff_witness:
  "fst (deliverAlert (\<lambda>t d. Inr t) (\<lambda>c t. Inl (Error ''timeout'')) ''e8'' ''e9'' 1738281600000
          exampleAlert exampleWorld) = Inl (Error ''timeout'')
   \<and> find (\<lambda>d. alert_id d = ''al1'')
        (alert_queue (snd (deliverAlert (\<lambda>t d. Inr t) (\<lambda>c t. Inl (Error ''timeout'')) ''e8'' ''e9''
           1738281600000 exampleAlert exampleWorld)))
      = Some (exampleAlert\<lparr> status := QUEUED, attempts := 1, alert_error := Some ''timeout'',
                             scheduled_for := 1738281900000 \<rparr>)
   \<and> find (\<lambda>d. alert_id d = ''al1'')
        (alert_queue (snd (deliverAlert (\<lambda>t d. Inr t) (\<lambda>c t. Inl (Error ''timeout'')) ''e8'' ''e9''
           1738281600000 (exampleAlert\<lparr> attempts := 2 \<rparr>) exampleWorld)))
      = Some (exampleAlert\<lparr> status := FAILED, attempts := 3, alert_error := Some ''timeout'',
                             failed_at := Some 1738281600000 \<rparr>)"
  using delivery_failure_backoff [of "\<lambda>t d. Inr t" "\<lambda>c t. Inl (Error ''timeout'')" exampleAlert
      "Error ''timeout''" "''e9''" exampleWorld "''e8''" 1738281600000]
    delivery_failure_backoff [of "\<lambda>t d. Inr t" "\<lambda>c t. Inl (Error ''timeout'')"
      "exampleAlert\<lparr> attempts := 2 \<rparr>" "Error ''timeout''" "''e9''" exampleWorld "''e8''" 1738281600000]
  by (simp add: deliveryAttempt_def exampleAlert_def exampleWorld_def exampleCreated_def
        error_message_def)

section \<open>Properties of the payment verification\<close>

lemma append_None_fst: "fst (append None event w) = Inr ()"
  by (simp add: append_def insertOne_event_def error_code_def)

lemma append_None_ar_state: "ar_state (snd (append None event w)) = ar_state w"
  by (simp add: append_def insertOne_event_def error_code_def)

lemma append_None_events:
  "events (snd (append None event w)) = events w
   \<or> events (snd (append None event w)) = events w @ [event]"
  by (simp add: append_def insertOne_event_def error_code_def)

lemma save_failure_keeps:
  "fst (save state w) = Inl e \<Longrightarrow> snd (save state w) = w"
  by (auto simp: save_def split: option.splits if_splits)

lemma save_events: "events (snd (save state w)) = events w"
  by (auto simp: save_def split: option.splits)

text \<open>A failed create leaves the snapshots alone and at most adds its event to the log.\<close>

lemma CreateARCommand_create_failure:
  assumes "fst (CreateARCommand_create new_ar_id ev w) = Inl e" and "payload ev = ARCreated p"
  shows "ar_state (snd (CreateARCommand_create new_ar_id ev w)) = ar_state w
         \<and> (events (snd (CreateARCommand_create new_ar_id ev w)) = events w
            \<or> events (snd (CreateARCommand_create new_ar_id ev w)) = events w @ [ev])"
proof -
  let ?st = "initializeFromCreatedEvent ev p"
  obtain w1 where app: "append None ev w = (Inr (), w1)"
    using append_None_fst [of ev w] by (cases "append None ev w") simp
  have w1: "ar_state w1 = ar_state w" "events w1 = events w \<or> events w1 = events w @ [ev]"
    using append_None_ar_state [of ev w] append_None_events [of ev w] app by simp_all
  have rep: "replayEvents [ev] = Inr ?st"
    using assms(2) by (simp add: replayEvents_def)
  have exec: "CreateARCommand_create new_ar_id ev w =
      (case save ?st w1 of (Inl e, w') \<Rightarrow> (Inl e, w') | (Inr u, w') \<Rightarrow> (Inr new_ar_id, w'))"
    using app rep by (simp add: CreateARCommand_create_def CreateARCommand_save_def)
  from assms(1) exec have failed: "fst (save ?st w1) = Inl e"
    by (cases "save ?st w1") (auto split: sum.splits)
  then have "snd (save ?st w1) = w1"
    by (rule save_failure_keeps)
  with exec failed have "snd (CreateARCommand_create new_ar_id ev w) = w1"
    by (cases "save ?st w1") (auto split: sum.splits)
  then show ?thesis
    using w1 by simp
qed

lemma CreateARCommand_failure:
  assumes "fst (CreateARCommand_execute new_ar_id new_event_id now dto w) = Inl e"
  shows "ar_state (snd (CreateARCommand_execute new_ar_id new_event_id now dto w)) = ar_state w
         \<and> set (events w) \<subseteq> set (events (snd (CreateARCommand_execute new_ar_id new_event_id now dto w)))"
proof (cases "CreateARCommand_validateInput dto")
  case (Some err)
  then show ?thesis by (simp add: CreateARCommand_execute_def)
next
  case None
  show ?thesis
  proof (cases "dto_invoice_date dto")
    case None
    then show ?thesis
      using \<open>CreateARCommand_validateInput dto = None\<close> by (simp add: CreateARCommand_execute_def)
  next
    case (Some invoice)
    let ?ev = "arCreatedEvent new_ar_id new_event_id now dto invoice"
    have exec: "CreateARCommand_execute new_ar_id new_event_id now dto w =
        CreateARCommand_create new_ar_id ?ev w"
      using Some \<open>CreateARCommand_validateInput dto = None\<close>
      by (simp add: CreateARCommand_execute_def)
    have "\<exists>p. payload ?ev = ARCreated p"
      by (simp add: arCreatedEvent_def)
    then obtain p where "payload ?ev = ARCreated p" ..
    from CreateARCommand_create_failure [OF _ this, of new_ar_id w e] assms exec
    show ?thesis by auto
  qed
qed

text \<open>
  The data that \<open>CreateNextMonthARCommand\<close> and the date checker hand over has no
  \<open>customer_id\<close>: \<open>CreateARCommand\<close> rejects it and writes nothing.
\<close>

lemma nextMonthARData_rejected:
  "CreateARCommand_execute new_ar_id new_event_id now (nextMonthARData ar invoice due) w =
     (Inl (Error ''customer_id is required''), w)"
  by (simp add: CreateARCommand_execute_def CreateARCommand_validateInput_def
        nextMonthARData_def missing_def)

lemma CreateNextMonthAR_rejected:
  "findById (paid_ar_id d) w = Some p \<Longrightarrow>
   CreateNextMonthARCommand_execute tz new_ar_id new_event_id now d w =
     (Inl (Error ''customer_id is required''), w)"
  by (simp add: CreateNextMonthARCommand_execute_def nextMonthARData_rejected)

lemma CreateNextMonthAR2_rejected:
  "findById (paid_ar_id2 d) w = Some p \<Longrightarrow>
   findByHomeIdAndDueDate (home_id p) (addMonths tz (due_date p) 1) w = None \<Longrightarrow>
   CreateNextMonthARCommand_execute2 tz new_ar_id new_event_id now d w =
     (Inl (Error ''customer_id is required''), w)"
  by (simp add: CreateNextMonthARCommand_execute2_def nextMonthARData_rejected)

lemma CreateNextMonthAR_failure:
  assumes "fst (CreateNextMonthARCommand_execute tz new_ar_id new_event_id now d w) = Inl e"
  shows "ar_state (snd (CreateNextMonthARCommand_execute tz new_ar_id new_event_id now d w)) = ar_state w
         \<and> set (events w) \<subseteq> set (events (snd (CreateNextMonthARCommand_execute tz new_ar_id new_event_id now d w)))"
proof (cases "findById (paid_ar_id d) w")
  case None
  then show ?thesis by (simp add: CreateNextMonthARCommand_execute_def)
next
  case (Some p)
  then show ?thesis
    by (simp add: CreateNextMonthAR_rejected)
qed

lemma findById_Some_props:
  "findById a w = Some ar \<Longrightarrow> ar_id ar = a \<and> ar \<in> set (ar_state w)"
  by (auto simp: findById_def find_Some_iff)

lemma save_existing:
  assumes "findById (ar_id state) w = Some ar" and "version state = version ar"
  shows "save state w =
     (Inr (), w\<lparr> ar_state := updateOne (\<lambda>d. ar_id d = ar_id state \<and> version d = version state)
                               (\<lambda>d. state\<lparr> version := version state + 1 \<rparr>) (ar_state w) \<rparr>)"
proof -
  from assms(1) have "ar_id ar = ar_id state" and "ar \<in> set (ar_state w)"
    by (auto dest: findById_Some_props)
  with assms(2) have "list_ex (\<lambda>d. ar_id d = ar_id state \<and> version d = version state) (ar_state w)"
    by (auto simp: list_ex_iff)
  with assms(1) show ?thesis
    by (simp add: save_def findById_def)
qed

lemma find_updateOne_first:
  "find P xs = Some x \<Longrightarrow> Q x \<Longrightarrow> P y \<Longrightarrow>
   find P (updateOne (\<lambda>d. P d \<and> Q d) (\<lambda>d. y) xs) = Some y"
  by (induction xs) (auto split: if_splits)

lemma verifiedWorld_props:
  assumes "findById (vp_ar_id dto) w = Some ar"
      and "new_event_id \<notin> set (map event_id (events w))"
  shows "save (markedPaid new_event_id now dto ar)
           (w\<lparr> events := events w @ [paymentVerifiedEvent new_event_id now dto] \<rparr>) =
           (Inr (), verifiedWorld new_event_id now dto ar w)"
    and "events (verifiedWorld new_event_id now dto ar w) =
           events w @ [paymentVerifiedEvent new_event_id now dto]"
    and "findById (vp_ar_id dto) (verifiedWorld new_event_id now dto ar w) =
           Some ((markedPaid new_event_id now dto ar)\<lparr> version := version ar + 1 \<rparr>)"
    and "alert_queue (verifiedWorld new_event_id now dto ar w) = alert_queue w"
proof -
  let ?ev = "paymentVerifiedEvent new_event_id now dto"
  let ?w0 = "w\<lparr> events := events w @ [?ev] \<rparr>"
  let ?p = "markedPaid new_event_id now dto ar"
  have id: "ar_id ar = vp_ar_id dto"
    using assms(1) by (auto dest: findById_Some_props)
  have app: "append None ?ev w = (Inr (), ?w0)"
    using assms(2) by (simp add: append_fresh paymentVerifiedEvent_def)
  have found0: "findById (ar_id ?p) ?w0 = Some ar"
    using assms(1) id by (simp add: findById_def markedPaid_def)
  have ver: "version ?p = version ar"
    by (simp add: markedPaid_def)
  note sv = save_existing [OF found0 ver]
  show "save ?p ?w0 = (Inr (), verifiedWorld new_event_id now dto ar w)"
    using app sv by (simp add: verifiedWorld_def)
  show "events (verifiedWorld new_event_id now dto ar w) = events w @ [?ev]"
    using app sv by (simp add: verifiedWorld_def)
  show "alert_queue (verifiedWorld new_event_id now dto ar w) = alert_queue w"
    using app sv by (simp add: verifiedWorld_def)
  have "find (\<lambda>d. ar_id d = vp_ar_id dto) (ar_state w) = Some ar"
    using assms(1) by (simp add: findById_def)
  then have "find (\<lambda>d. ar_id d = vp_ar_id dto)
      (updateOne (\<lambda>d. ar_id d = vp_ar_id dto \<and> version d = version ar)
         (\<lambda>d. ?p\<lparr> version := version ar + 1 \<rparr>) (ar_state w)) = Some (?p\<lparr> version := version ar + 1 \<rparr>)"
    by (rule find_updateOne_first) (simp_all add: markedPaid_def id)
  then show "findById (vp_ar_id dto) (verifiedWorld new_event_id now dto ar w) =
      Some (?p\<lparr> version := version ar + 1 \<rparr>)"
    using app sv id by (simp add: verifiedWorld_def findById_def markedPaid_def)
qed

text \<open>
  C7. For an AR that exists. If its status is \<open>PAID\<close>, verify-payment fails and leaves the
  stores as they were, and on valid input the error is the already-paid error. If it is
  not, on valid input and with a new event identity, verify-payment returns normally
  whatever the create-next-AR routine returns or throws: the \<open>PAYMENT_VERIFIED\<close> event is
  appended and the snapshot saved as \<open>PAID\<close> before the routine runs, and the stores at
  the end are the ones the routine leaves from there. When the routine is
  \<open>CreateNextMonthARCommand\<close> and it fails, the event is still in the log and the snapshot
  is still the paid one.
\<close>

theorem verifyPayment_already_paid_and_side_effect:
  assumes "findById (vp_ar_id dto) w = Some ar"
  shows "(current_status ar = PAID \<longrightarrow>
            snd (VerifyPaymentCommand_execute createNextMonthAR new_event_id now dto w) = w
            \<and> (\<exists>e. fst (VerifyPaymentCommand_execute createNextMonthAR new_event_id now dto w) = Inl e)
            \<and> (VerifyPaymentCommand_validateInput dto = None \<longrightarrow>
                 fst (VerifyPaymentCommand_execute createNextMonthAR new_event_id now dto w) =
                   Inl (Error (''AR '' @ vp_ar_id dto @ '' is already marked as paid''))))
    \<and> (current_status ar \<noteq> PAID \<and> VerifyPaymentCommand_validateInput dto = None
         \<and> new_event_id \<notin> set (map event_id (events w)) \<longrightarrow>
          fst (VerifyPaymentCommand_execute createNextMonthAR new_event_id now dto w) = Inr ()
          \<and> snd (VerifyPaymentCommand_execute createNextMonthAR new_event_id now dto w) =
              snd (createNextMonthAR \<lparr> paid_ar_id = vp_ar_id dto \<rparr>
                     (verifiedWorld new_event_id now dto ar w))
          \<and> events (verifiedWorld new_event_id now dto ar w) =
              events w @ [paymentVerifiedEvent new_event_id now dto]
          \<and> event_type (paymentVerifiedEvent new_event_id now dto) = PAYMENT_VERIFIED
          \<and> findById (vp_ar_id dto) (verifiedWorld new_event_id now dto ar w) =
              Some (ar\<lparr> current_status := PAID, paid_date := Some (vp_payment_date dto),
                        last_event_id := new_event_id, last_event_at := now,
                        event_count := event_count ar + 1, version := version ar + 1 \<rparr>)
          \<and> (\<forall>tz id1 id2 now2 e.
                createNextMonthAR = CreateNextMonthARCommand_execute tz id1 id2 now2
                \<and> fst (createNextMonthAR \<lparr> paid_ar_id = vp_ar_id dto \<rparr>
                         (verifiedWorld new_event_id now dto ar w)) = Inl e \<longrightarrow>
                paymentVerifiedEvent new_event_id now dto
                  \<in> set (events (snd (VerifyPaymentCommand_execute createNextMonthAR new_event_id now dto w)))
                \<and> findById (vp_ar_id dto)
                    (snd (VerifyPaymentCommand_execute createNextMonthAR new_event_id now dto w)) =
                    Some (ar\<lparr> current_status := PAID, paid_date := Some (vp_payment_date dto),
                              last_event_id := new_event_id, last_event_at := now,
                              event_count := event_count ar + 1, version := version ar + 1 \<rparr>)))"
proof -
  let ?exec = "VerifyPaymentCommand_execute createNextMonthAR new_event_id now dto w"
  let ?w1 = "verifiedWorld new_event_id now dto ar w"
  let ?paid = "ar\<lparr> current_status := PAID, paid_date := Some (vp_payment_date dto),
                   last_event_id := new_event_id, last_event_at := now,
                   event_count := event_count ar + 1, version := version ar + 1 \<rparr>"
  have paid: "current_status ar = PAID \<Longrightarrow>
      snd ?exec = w \<and> (\<exists>e. fst ?exec = Inl e)
      \<and> (VerifyPaymentCommand_validateInput dto = None \<longrightarrow>
           fst ?exec = Inl (Error (''AR '' @ vp_ar_id dto @ '' is already marked as paid'')))"
    using assms by (auto simp: VerifyPaymentCommand_execute_def split: option.splits)
  have unpaid: "fst ?exec = Inr () \<and> snd ?exec = snd (createNextMonthAR \<lparr> paid_ar_id = vp_ar_id dto \<rparr> ?w1)
      \<and> events ?w1 = events w @ [paymentVerifiedEvent new_event_id now dto]
      \<and> findById (vp_ar_id dto) ?w1 = Some ?paid"
    if h: "current_status ar \<noteq> PAID" "VerifyPaymentCommand_validateInput dto = None"
          "new_event_id \<notin> set (map event_id (events w))"
  proof -
    note vw = verifiedWorld_props [OF assms h(3), of now]
    have app: "append None (paymentVerifiedEvent new_event_id now dto) w =
        (Inr (), w\<lparr> events := events w @ [paymentVerifiedEvent new_event_id now dto] \<rparr>)"
      using h(3) by (simp add: append_fresh paymentVerifiedEvent_def)
    have "?exec = VerifyPaymentCommand_nextMonth createNextMonthAR (vp_ar_id dto) ?w1"
      using assms h(1,2) vw(1) app
      by (simp add: VerifyPaymentCommand_execute_def)
    then have "fst ?exec = Inr () \<and> snd ?exec = snd (createNextMonthAR \<lparr> paid_ar_id = vp_ar_id dto \<rparr> ?w1)"
      by (simp add: VerifyPaymentCommand_nextMonth_def split: prod.splits sum.splits)
    then show ?thesis
      using vw(2,3) by (simp add: markedPaid_def)
  qed
  have routine: "paymentVerifiedEvent new_event_id now dto \<in> set (events (snd ?exec))
      \<and> findById (vp_ar_id dto) (snd ?exec) = Some ?paid"
    if h: "current_status ar \<noteq> PAID" "VerifyPaymentCommand_validateInput dto = None"
          "new_event_id \<notin> set (map event_id (events w))"
       and r: "createNextMonthAR = CreateNextMonthARCommand_execute tz id1 id2 now2"
          "fst (createNextMonthAR \<lparr> paid_ar_id = vp_ar_id dto \<rparr> ?w1) = Inl e"
    for tz id1 id2 now2 e
  proof -
    from unpaid [OF h] have u: "snd ?exec = snd (createNextMonthAR \<lparr> paid_ar_id = vp_ar_id dto \<rparr> ?w1)"
      "events ?w1 = events w @ [paymentVerifiedEvent new_event_id now dto]"
      "findById (vp_ar_id dto) ?w1 = Some ?paid"
      by simp_all
    from r have "ar_state (snd (createNextMonthAR \<lparr> paid_ar_id = vp_ar_id dto \<rparr> ?w1)) = ar_state ?w1
      \<and> set (events ?w1) \<subseteq> set (events (snd (createNextMonthAR \<lparr> paid_ar_id = vp_ar_id dto \<rparr> ?w1)))"
      using CreateNextMonthAR_failure [of tz id1 id2 now2 "\<lparr> paid_ar_id = vp_ar_id dto \<rparr>" ?w1 e]
      by simp
    with u show ?thesis
      by (auto simp: findById_def)
  qed
  show ?thesis
    using paid unpaid routine
    by (simp add: event_type_def paymentVerifiedEvent_def) blast
qed

lemma exampleWorld_findById: "findById ''a1'' exampleWorld = Some exampleAR"
  by (simp add: findById_def exampleWorld_def exampleAR_def)

lemma examplePayment_valid: "VerifyPaymentCommand_validateInput examplePayment = None"
  by (simp add: VerifyPaymentCommand_validateInput_def examplePayment_def blank_def is_space_def)

lemma exampleWorld_fresh: "''e2'' \<notin> set (map event_id (events exampleWorld))"
  by (simp add: exampleWorld_def exampleCreated_def)

lemma exampleNextMonth_fails:
  "fst (exampleNextMonth \<lparr> paid_ar_id = ''a1'' \<rparr>
          (verifiedWorld ''e2'' 1748736000000 examplePayment exampleAR exampleWorld))
   = Inl (Error ''customer_id is required'')"
proof -
  have id: "vp_ar_id examplePayment = ''a1''"
    by (simp add: examplePayment_def)
  have found: "findById ''a1'' (verifiedWorld ''e2'' 1748736000000 examplePayment exampleAR exampleWorld) =
      Some ((markedPaid ''e2'' 1748736000000 examplePayment exampleAR)\<lparr> version := version exampleAR + 1 \<rparr>)"
    using verifiedWorld_props(3) [of examplePayment exampleWorld exampleAR "''e2''" 1748736000000]
      exampleWorld_findById exampleWorld_fresh id
    by simp
  show ?thesis
    unfolding exampleNextMonth_def
    using CreateNextMonthAR_rejected [of "\<lparr> paid_ar_id = ''a1'' \<rparr>", OF _] found
    by simp
qed

theorem verifyPayment_already_paid_and_side_effect_witness:
  "VerifyPaymentCommand_execute exampleNextMonth ''e2'' 1748736000000 examplePayment
     (exampleWorld\<lparr> ar_state := [exampleAR\<lparr> current_status := PAID \<rparr>] \<rparr>)
     = (Inl (Error ''AR a1 is already marked as paid''),
        exampleWorld\<lparr> ar_state := [exampleAR\<lparr> current_status := PAID \<rparr>] \<rparr>)
   \<and> fst (VerifyPaymentCommand_execute exampleNextMonth ''e2'' 1748736000000 examplePayment exampleWorld)
       = Inr ()
   \<and> fst (exampleNextMonth \<lparr> paid_ar_id = ''a1'' \<rparr>
            (verifiedWorld ''e2'' 1748736000000 examplePayment exampleAR exampleWorld))
       = Inl (Error ''customer_id is required'')
   \<and> paymentVerifiedEvent ''e2'' 1748736000000 examplePayment
       \<in> set (events (snd (VerifyPaymentCommand_execute exampleNextMonth ''e2'' 1748736000000
                              examplePayment exampleWorld)))
   \<and> findById ''a1'' (snd (VerifyPaymentCommand_execute exampleNextMonth ''e2'' 1748736000000
                             examplePayment exampleWorld))
       = Some (exampleAR\<lparr> current_status := PAID, paid_date := Some 1738281600000,
                           last_event_id := ''e2'', last_event_at := 1748736000000,
                           event_count := 2, version := 2 \<rparr>)"
proof -
  have id: "vp_ar_id examplePayment = ''a1''" "vp_payment_date examplePayment = 1738281600000"
    by (simp_all add: examplePayment_def)
  have paid_found: "findById (vp_ar_id examplePayment)
      (exampleWorld\<lparr> ar_state := [exampleAR\<lparr> current_status := PAID \<rparr>] \<rparr>)
      = Some (exampleAR\<lparr> current_status := PAID \<rparr>)"
    by (simp add: findById_def exampleAR_def examplePayment_def)
  have found: "findById (vp_ar_id examplePayment) exampleWorld = Some exampleAR"
    using exampleWorld_findById id by simp
  have counts: "event_count exampleAR = 1" "version exampleAR = 1" "current_status exampleAR \<noteq> PAID"
    by (simp_all add: exampleAR_def)
  let ?exec = "VerifyPaymentCommand_execute exampleNextMonth ''e2'' 1748736000000 examplePayment"
  let ?paidWorld = "exampleWorld\<lparr> ar_state := [exampleAR\<lparr> current_status := PAID \<rparr>] \<rparr>"
  have "snd (?exec ?paidWorld) = ?paidWorld
      \<and> fst (?exec ?paidWorld) = Inl (Error (''AR '' @ vp_ar_id examplePayment @ '' is already marked as paid''))"
    using verifyPayment_already_paid_and_side_effect [OF paid_found, of exampleNextMonth "''e2''" 1748736000000]
      examplePayment_valid
    by simp
  then have first: "?exec ?paidWorld = (Inl (Error ''AR a1 is already marked as paid''), ?paidWorld)"
    using id by (simp add: prod_eq_iff)
  have pre: "current_status exampleAR \<noteq> PAID \<and> VerifyPaymentCommand_validateInput examplePayment = None
      \<and> ''e2'' \<notin> set (map event_id (events exampleWorld))"
    using counts examplePayment_valid exampleWorld_fresh by simp
  have second: "fst (?exec exampleWorld) = Inr ()"
    and routine: "\<forall>tz id1 id2 now2 e.
        exampleNextMonth = CreateNextMonthARCommand_execute tz id1 id2 now2
        \<and> fst (exampleNextMonth \<lparr> paid_ar_id = vp_ar_id examplePayment \<rparr>
                 (verifiedWorld ''e2'' 1748736000000 examplePayment exampleAR exampleWorld)) = Inl e \<longrightarrow>
        paymentVerifiedEvent ''e2'' 1748736000000 examplePayment \<in> set (events (snd (?exec exampleWorld)))
        \<and> findById (vp_ar_id examplePayment) (snd (?exec exampleWorld)) =
            Some (exampleAR\<lparr> current_status := PAID, paid_date := Some (vp_payment_date examplePayment),
                              last_event_id := ''e2'', last_event_at := 1748736000000,
                              event_count := event_count exampleAR + 1,
                              version := version exampleAR + 1 \<rparr>)"
    using verifyPayment_already_paid_and_side_effect [OF found, of exampleNextMonth "''e2''" 1748736000000]
      pre
    by blast+
  have third: "paymentVerifiedEvent ''e2'' 1748736000000 examplePayment \<in> set (events (snd (?exec exampleWorld)))
        \<and> findById (vp_ar_id examplePayment) (snd (?exec exampleWorld)) =
            Some (exampleAR\<lparr> current_status := PAID, paid_date := Some (vp_payment_date examplePayment),
                              last_event_id := ''e2'', last_event_at := 1748736000000,
                              event_count := event_count exampleAR + 1,
                              version := version exampleAR + 1 \<rparr>)"
    using routine [rule_format, of tzPhnomPenh "''a2''" "''e3''" 1748736000000
        "Error ''customer_id is required''"]
      exampleNextMonth_fails id(1)
    by (simp add: exampleNextMonth_def)
  show ?thesis
    using first second third exampleNextMonth_fails id counts
    by simp
qed

section \<open>The next AR after a payment\<close>

lemma verifiedWorld_example:
  "verifiedWorld ''e2'' 1738281600000 examplePayment exampleAR exampleWorld =
     \<lparr> events = [exampleCreated, paymentVerifiedEvent ''e2'' 1738281600000 examplePayment],
       ar_state = [examplePaidAR], alert_queue = [] \<rparr>"
  by (simp add: verifiedWorld_def append_def insertOne_event_def save_def markedPaid_def
        paymentVerifiedEvent_def examplePayment_def exampleWorld_def exampleAR_def
        exampleCreated_def examplePaidAR_def)

lemma examplePaidAR_setMonth:
  "setMonth tzPhnomPenh (due_date examplePaidAR) (getMonth tzPhnomPenh (due_date examplePaidAR) + 1)
     = 1740960000000"
  by (simp add: examplePaidAR_def exampleAR_def jan31_fields jan31_setMonth)

lemma examplePaidAR_addMonths:
  "addMonths tzPhnomPenh (due_date examplePaidAR) 1 = 1740700800000"
  by (simp add: examplePaidAR_def exampleAR_def jan31_addMonths)

text \<open>Verify-payment on the example, for any routine that finds the paid AR and is rejected.\<close>

lemma examplePayment_verified:
  assumes "createNextMonthAR \<lparr> paid_ar_id = ''a1'' \<rparr>
             \<lparr> events = [exampleCreated, paymentVerifiedEvent ''e2'' 1738281600000 examplePayment],
               ar_state = [examplePaidAR], alert_queue = [] \<rparr>
           = (Inl e,
              \<lparr> events = [exampleCreated, paymentVerifiedEvent ''e2'' 1738281600000 examplePayment],
                ar_state = [examplePaidAR], alert_queue = [] \<rparr>)"
  shows "VerifyPaymentCommand_execute createNextMonthAR ''e2'' 1738281600000 examplePayment exampleWorld
   = (Inr (),
      \<lparr> events = [exampleCreated, paymentVerifiedEvent ''e2'' 1738281600000 examplePayment],
        ar_state = [examplePaidAR], alert_queue = [] \<rparr>)"
proof -
  have found: "findById (vp_ar_id examplePayment) exampleWorld = Some exampleAR"
    by (simp add: findById_def exampleWorld_def exampleAR_def examplePayment_def)
  have valid: "VerifyPaymentCommand_validateInput examplePayment = None"
    by (simp add: VerifyPaymentCommand_validateInput_def examplePayment_def blank_def is_space_def)
  have fresh: "''e2'' \<notin> set (map event_id (events exampleWorld))"
    by (simp add: exampleWorld_def exampleCreated_def)
  have unpaid: "current_status exampleAR \<noteq> PAID"
    by (simp add: exampleAR_def)
  have app: "append None (paymentVerifiedEvent ''e2'' 1738281600000 examplePayment) exampleWorld =
      (Inr (), exampleWorld\<lparr> events := events exampleWorld
                                @ [paymentVerifiedEvent ''e2'' 1738281600000 examplePayment] \<rparr>)"
    using fresh by (simp add: append_fresh paymentVerifiedEvent_def)
  have id: "vp_ar_id examplePayment = ''a1''"
    by (simp add: examplePayment_def)
  show ?thesis
    using found valid unpaid app
      verifiedWorld_props(1) [OF found fresh, of 1738281600000]
    by (simp add: VerifyPaymentCommand_execute_def VerifyPaymentCommand_nextMonth_def
          verifiedWorld_example id assms)
qed

lemma paid_found:
  "findById ''a1''
     \<lparr> events = [exampleCreated, paymentVerifiedEvent ''e2'' 1738281600000 examplePayment],
       ar_state = [examplePaidAR], alert_queue = [] \<rparr> = Some examplePaidAR"
  by (simp add: findById_def examplePaidAR_def exampleAR_def)

lemma paid_no_next:
  "findByHomeIdAndDueDate (home_id examplePaidAR)
     (addMonths tzPhnomPenh (due_date examplePaidAR) 1)
     \<lparr> events = [exampleCreated, paymentVerifiedEvent ''e2'' 1738281600000 examplePayment],
       ar_state = [examplePaidAR], alert_queue = [] \<rparr> = None"
  unfolding examplePaidAR_addMonths
  by (simp add: findByHomeIdAndDueDate_def examplePaidAR_def exampleAR_def)

lemma examplePaidWorld_eq:
  "VerifyPaymentCommand_execute
      (CreateNextMonthARCommand_execute tzPhnomPenh ''a2'' ''e3'' 1738281600000)
      ''e2'' 1738281600000 examplePayment exampleWorld
   = (Inr (),
      \<lparr> events = [exampleCreated, paymentVerifiedEvent ''e2'' 1738281600000 examplePayment],
        ar_state = [examplePaidAR], alert_queue = [] \<rparr>)"
  by (rule examplePayment_verified [where e = "Error ''customer_id is required''"])
     (simp add: CreateNextMonthAR_rejected [of _ _ examplePaidAR] paid_found)

lemma nextMonth_again:
  "CreateNextMonthARCommand_execute tzPhnomPenh ''a3'' ''e4'' 1738281600000 \<lparr> paid_ar_id = ''a1'' \<rparr>
     \<lparr> events = [exampleCreated, paymentVerifiedEvent ''e2'' 1738281600000 examplePayment],
       ar_state = [examplePaidAR], alert_queue = [] \<rparr>
   = (Inl (Error ''customer_id is required''),
      \<lparr> events = [exampleCreated, paymentVerifiedEvent ''e2'' 1738281600000 examplePayment],
        ar_state = [examplePaidAR], alert_queue = [] \<rparr>)"
  by (simp add: CreateNextMonthAR_rejected [of _ _ examplePaidAR] paid_found)

text \<open>
  The second revision, called the way \<open>VerifyPaymentCommand\<close> calls the routine (without a
  payment date) and with one.
\<close>

lemma nextMonth2_rejected:
  "CreateNextMonthARCommand_execute2 tzPhnomPenh ''a2'' ''e3'' 1738281600000
     \<lparr> paid_ar_id2 = ''a1'', payment_date2 = pd \<rparr>
     \<lparr> events = [exampleCreated, paymentVerifiedEvent ''e2'' 1738281600000 examplePayment],
       ar_state = [examplePaidAR], alert_queue = [] \<rparr>
   = (Inl (Error ''customer_id is required''),
      \<lparr> events = [exampleCreated, paymentVerifiedEvent ''e2'' 1738281600000 examplePayment],
        ar_state = [examplePaidAR], alert_queue = [] \<rparr>)"
  by (rule CreateNextMonthAR2_rejected [of _ _ examplePaidAR])
     (simp_all add: paid_found paid_no_next)

lemma examplePaidWorld2_eq:
  "VerifyPaymentCommand_execute
      (\<lambda>dto. CreateNextMonthARCommand_execute2 tzPhnomPenh ''a2'' ''e3'' 1738281600000
                \<lparr> paid_ar_id2 = paid_ar_id dto, payment_date2 = None \<rparr>)
      ''e2'' 1738281600000 examplePayment exampleWorld
   = (Inr (),
      \<lparr> events = [exampleCreated, paymentVerifiedEvent ''e2'' 1738281600000 examplePayment],
        ar_state = [examplePaidAR], alert_queue = [] \<rparr>)"
  by (rule examplePayment_verified [where e = "Error ''customer_id is required''"])
     (simp add: nextMonth2_rejected)

lemma arSummary_examples:
  "arSummary exampleAR = (''a1'', Some ''B101'', PENDING, ''2025-01-31'')"
  "arSummary examplePaidAR = (''a1'', Some ''B101'', PAID, ''2025-01-31'')"
  by (simp_all add: arSummary_def examplePaidAR_def exampleAR_def iso_dates)

lemma next_due_dates:
  "toISODate (setMonth tzPhnomPenh (due_date examplePaidAR)
                (getMonth tzPhnomPenh (due_date examplePaidAR) + 1)) = ''2025-03-03''"
  "toISODate (addMonths tzPhnomPenh (due_date examplePaidAR) 1) = ''2025-02-28''"
  unfolding examplePaidAR_setMonth examplePaidAR_addMonths
  by (simp_all add: iso_dates)

text \<open>
  C2, evaluated on the code. An AR of home B101 is due on 2025-01-31 and its payment is
  verified that day. \<open>VerifyPaymentCommand\<close> succeeds and the snapshot is \<open>PAID\<close>, but no AR
  is created: the next-AR routine hands \<open>CreateARCommand\<close> the data of the new AR under
  \<open>home_id\<close>, \<open>CreateARCommand\<close> asks for \<open>customer_id\<close> and throws, and
  \<open>VerifyPaymentCommand\<close> catches the error. The stores hold the one AR afterwards, and
  calling the routine again or directly changes nothing. This is so for the revision that
  stands with \<open>VerifyPaymentCommand\<close> and for the revision with the duplicate check alike.
  The due date on which they ask for the new AR is 2025-03-03 in the first (\<open>setMonth\<close>
  carries 31 February over into March) and 2025-02-28 in the second (\<open>addMonths\<close>).
\<close>

theorem verifyPayment_creates_no_next_AR:
  "map arSummary (ar_state exampleWorld) = [(''a1'', Some ''B101'', PENDING, ''2025-01-31'')]
   \<and> fst (VerifyPaymentCommand_execute
            (CreateNextMonthARCommand_execute tzPhnomPenh ''a2'' ''e3'' 1738281600000)
            ''e2'' 1738281600000 examplePayment exampleWorld) = Inr ()
   \<and> map arSummary (ar_state examplePaidWorld) = [(''a1'', Some ''B101'', PAID, ''2025-01-31'')]
   \<and> CreateNextMonthARCommand_execute tzPhnomPenh ''a3'' ''e4'' 1738281600000
        \<lparr> paid_ar_id = ''a1'' \<rparr> examplePaidWorld
       = (Inl (Error ''customer_id is required''), examplePaidWorld)
   \<and> toISODate (setMonth tzPhnomPenh (due_date examplePaidAR)
                  (getMonth tzPhnomPenh (due_date examplePaidAR) + 1)) = ''2025-03-03''
   \<and> map arSummary
        (ar_state (snd (VerifyPaymentCommand_execute
           (\<lambda>dto. CreateNextMonthARCommand_execute2 tzPhnomPenh ''a2'' ''e3'' 1738281600000
                     \<lparr> paid_ar_id2 = paid_ar_id dto, payment_date2 = None \<rparr>)
           ''e2'' 1738281600000 examplePayment exampleWorld)))
       = [(''a1'', Some ''B101'', PAID, ''2025-01-31'')]
   \<and> CreateNextMonthARCommand_execute2 tzPhnomPenh ''a2'' ''e3'' 1738281600000
        \<lparr> paid_ar_id2 = ''a1'', payment_date2 = Some 1738281600000 \<rparr> examplePaidWorld
       = (Inl (Error ''customer_id is required''), examplePaidWorld)
   \<and> toISODate (addMonths tzPhnomPenh (due_date examplePaidAR) 1) = ''2025-02-28''"
proof -
  have start: "map arSummary (ar_state exampleWorld) = [(''a1'', Some ''B101'', PENDING, ''2025-01-31'')]"
    by (simp add: exampleWorld_def arSummary_examples)
  have paid: "examplePaidWorld =
      \<lparr> events = [exampleCreated, paymentVerifiedEvent ''e2'' 1738281600000 examplePayment],
        ar_state = [examplePaidAR], alert_queue = [] \<rparr>"
    by (simp add: examplePaidWorld_def examplePaidWorld_eq)
  show ?thesis
    unfolding paid
    by (simp add: start examplePaidWorld_eq examplePaidWorld2_eq nextMonth_again
          nextMonth2_rejected arSummary_examples next_due_dates)
qed

text \<open>
  With the same data under \<open>customer_id\<close>, \<open>CreateARCommand\<close> creates the AR; the snapshot it
  saves has neither \<open>home_id\<close> nor \<open>zone\<close>.
\<close>

lemma CreateARCommand_with_customer_id:
  "CreateARCommand_execute ''a2'' ''e3'' 1738281600000
     ((nextMonthARData examplePaidAR (Some 1738281600000) 1740700800000)
        \<lparr> dto_customer_id := Some ''B101'' \<rparr>)
     \<lparr> events = [exampleCreated], ar_state = [examplePaidAR], alert_queue = [] \<rparr>
   = (Inr ''a2'',
      \<lparr> events = [exampleCreated,
                  arCreatedEvent ''a2'' ''e3'' 1738281600000
                    ((nextMonthARData examplePaidAR (Some 1738281600000) 1740700800000)
                       \<lparr> dto_customer_id := Some ''B101'' \<rparr>) 1738281600000],
        ar_state = [examplePaidAR,
                    (exampleNextAR ''a2'' ''e3'' 1740700800000)\<lparr> home_id := None, zone := None \<rparr>],
        alert_queue = [] \<rparr>)"
  by (simp add: CreateARCommand_execute_def CreateARCommand_validateInput_def
        CreateARCommand_validateDates_def CreateARCommand_create_def CreateARCommand_save_def
        nextMonthARData_def missing_def append_def insertOne_event_def
        replayEvents_def initializeFromCreatedEvent_def save_def arCreatedEvent_def
        examplePaidAR_def exampleAR_def exampleCreated_def exampleNextAR_def
        blank_def is_space_def)

text \<open>
  The duplicate check of the second revision: with an AR of the home already due on the
  next due date, the routine returns that AR and leaves the stores alone.
\<close>

lemma nextMonth2_guard:
  "findById (paid_ar_id2 dto) w = Some p \<Longrightarrow>
   findByHomeIdAndDueDate (home_id p) (addMonths tz (due_date p) 1) w = Some existing \<Longrightarrow>
   CreateNextMonthARCommand_execute2 tz new_ar_id new_event_id now dto w = (Inr (ar_id existing), w)"
  by (simp add: CreateNextMonthARCommand_execute2_def)

lemma nextMonth2_second:
  "CreateNextMonthARCommand_execute2 tzPhnomPenh ''a3'' ''e4'' 1738281600000
     \<lparr> paid_ar_id2 = ''a1'', payment_date2 = Some 1738281600000 \<rparr>
     \<lparr> events = evs, ar_state = [examplePaidAR, exampleNextAR ''a2'' ''e3'' 1740700800000],
       alert_queue = q \<rparr>
   = (Inr ''a2'',
      \<lparr> events = evs, ar_state = [examplePaidAR, exampleNextAR ''a2'' ''e3'' 1740700800000],
        alert_queue = q \<rparr>)"
proof -
  let ?w = "\<lparr> events = evs, ar_state = [examplePaidAR, exampleNextAR ''a2'' ''e3'' 1740700800000],
             alert_queue = q \<rparr>"
  have found: "findById (paid_ar_id2 \<lparr> paid_ar_id2 = ''a1'', payment_date2 = Some 1738281600000 \<rparr>) ?w
      = Some examplePaidAR"
    by (simp add: findById_def examplePaidAR_def exampleAR_def)
  have dup: "findByHomeIdAndDueDate (home_id examplePaidAR)
      (addMonths tzPhnomPenh (due_date examplePaidAR) 1) ?w
      = Some (exampleNextAR ''a2'' ''e3'' 1740700800000)"
    unfolding examplePaidAR_addMonths
    by (simp add: findByHomeIdAndDueDate_def examplePaidAR_def exampleNextAR_def exampleAR_def)
  show ?thesis
    using nextMonth2_guard [OF found dup, of "''a3''" "''e4''" 1738281600000]
    by (simp add: exampleNextAR_def)
qed
section \<open>Properties of \<open>queueAlert\<close>\<close>

lemma alert_queue_append: "alert_queue (snd (append fault event w)) = alert_queue w"
  by (simp add: append_def insertOne_event_def split: option.splits)

lemma queueAlert_adds_alert:
  assumes "new_alert_id \<notin> set (map alert_id (alert_queue w))"
  shows "alert_queue (snd (queueAlert new_alert_id new_event_id now params w)) =
           alert_queue w @ [queueAlert_alert new_alert_id now params]"
proof -
  have "\<not> list_ex (\<lambda>d. alert_id d = new_alert_id) (alert_queue w)"
    using assms by (auto simp: list_ex_iff)
  then have "alert_queue (saveAlert (queueAlert_alert new_alert_id now params) w) =
      alert_queue w @ [queueAlert_alert new_alert_id now params]"
    by (simp add: saveAlert_def queueAlert_alert_def)
  then show ?thesis
    using alert_queue_append [of None "queueAlert_event new_alert_id new_event_id now params"
        "saveAlert (queueAlert_alert new_alert_id now params) w"]
    by (auto simp: queueAlert_def split: prod.splits sum.splits)
qed

lemma queueAlert_fst: "fst (queueAlert new_alert_id new_event_id now params w) = Inr new_alert_id"
proof -
  have "fst (append None (queueAlert_event new_alert_id new_event_id now params)
               (saveAlert (queueAlert_alert new_alert_id now params) w)) = Inr ()"
    by (rule append_None_fst)
  then show ?thesis
    by (auto simp: queueAlert_def split: prod.splits sum.splits)
qed

lemma exampleDueKey:
  "qa_dedup_key (dueCustomerParams exampleAR ''c1'') = Some ''a1_DUE_CUSTOMER_2025-01-31''"
  by (simp add: dueCustomerParams_def exampleAR_def iso_dates)

text \<open>
  C1, evaluated on the code. The date checker's parameters for the due-today alert of AR
  a1 carry the deduplication key \<open>a1_DUE_CUSTOMER_2025-01-31\<close>. \<open>queueAlert\<close> is called
  twice with them. Both calls succeed; after the first, \<open>findByDedupKey\<close> finds nothing
  under that key, since the alert is stored without it; after the second the queue holds
  two alerts for the same key.
\<close>

theorem queueAlert_same_dedup_key_twice:
  "qa_dedup_key (dueCustomerParams exampleAR ''c1'') = Some ''a1_DUE_CUSTOMER_2025-01-31''
   \<and> fst (queueAlert ''al1'' ''e5'' 1738281600000 (dueCustomerParams exampleAR ''c1'') exampleWorld)
       = Inr ''al1''
   \<and> findByDedupKey ''a1_DUE_CUSTOMER_2025-01-31''
        (snd (queueAlert ''al1'' ''e5'' 1738281600000 (dueCustomerParams exampleAR ''c1'') exampleWorld))
       = None
   \<and> fst (queueAlert ''al2'' ''e6'' 1738281600000 (dueCustomerParams exampleAR ''c1'')
            (snd (queueAlert ''al1'' ''e5'' 1738281600000 (dueCustomerParams exampleAR ''c1'')
                    exampleWorld)))
       = Inr ''al2''
   \<and> map alertSummary
        (alert_queue
           (snd (queueAlert ''al2'' ''e6'' 1738281600000 (dueCustomerParams exampleAR ''c1'')
                   (snd (queueAlert ''al1'' ''e5'' 1738281600000 (dueCustomerParams exampleAR ''c1'')
                           exampleWorld)))))
       = [(''al1'', DUE, CUSTOMER, ''c1'', None), (''al2'', DUE, CUSTOMER, ''c1'', None)]"
proof -
  let ?p = "dueCustomerParams exampleAR ''c1''"
  let ?w1 = "snd (queueAlert ''al1'' ''e5'' 1738281600000 ?p exampleWorld)"
  have q1: "alert_queue ?w1 = [queueAlert_alert ''al1'' 1738281600000 ?p]"
    using queueAlert_adds_alert [of "''al1''" exampleWorld "''e5''" 1738281600000 ?p]
    by (simp add: exampleWorld_def)
  have q2: "alert_queue (snd (queueAlert ''al2'' ''e6'' 1738281600000 ?p ?w1)) =
      [queueAlert_alert ''al1'' 1738281600000 ?p, queueAlert_alert ''al2'' 1738281600000 ?p]"
    using queueAlert_adds_alert [of "''al2''" ?w1 "''e6''" 1738281600000 ?p] q1
    by (simp add: queueAlert_alert_def)
  have s: "alertSummary (queueAlert_alert i 1738281600000 ?p) = (i, DUE, CUSTOMER, ''c1'', None)" for i
    by (simp add: alertSummary_def queueAlert_alert_def dueCustomerParams_def)
  have none: "findByDedupKey ''a1_DUE_CUSTOMER_2025-01-31'' ?w1 = None"
    by (simp add: findByDedupKey_def q1 queueAlert_alert_def)
  show ?thesis
    by (simp add: exampleDueKey queueAlert_fst none q2 s)
qed

section \<open>Properties of the date checker\<close>

lemmas eval_defs = date_defs calendar_defs

lemma sweep_today: "setHours0 tzPhnomPenh 1738893600000 = 1738861200000"
  by (simp add: eval_defs)

lemma sweep_findOverdue:
  "findOverdue tzPhnomPenh 1738861200000 exampleSweepWorld = [exampleOverdueAR]"
  by (simp add: findOverdue_def exampleSweepWorld_def exampleOverdueAR_def exampleAR_def eval_defs)

lemma sweep_daysOverdue: "daysOverdue 1738861200000 exampleOverdueAR = 7"
  by (simp add: daysOverdue_def exampleOverdueAR_def exampleAR_def msPerDay_def)

lemma sweep_promote:
  "updateOverdueStatus tzPhnomPenh exampleUuid 1738893600000 1738861200000 (0, exampleSweepWorld)
     = (Inr (), (1, examplePromotedWorld))"
proof -
  have dto: "cs_ar_id (overdueStatusDTO exampleOverdueAR) = ''a1''"
    "cs_new_status (overdueStatusDTO exampleOverdueAR) = OVERDUE"
    "ChangeARStatusCommand_validateInput (overdueStatusDTO exampleOverdueAR) = None"
    by (simp_all add: overdueStatusDTO_def exampleOverdueAR_def exampleAR_def
          ChangeARStatusCommand_validateInput_def blank_def is_space_def)
  have found: "findById ''a1'' exampleSweepWorld = Some exampleOverdueAR"
    by (simp add: findById_def exampleSweepWorld_def exampleOverdueAR_def exampleAR_def)
  have u0: "exampleUuid 0 = ''u0''"
    by (simp add: exampleUuid_def digits.simps digit_char_def)
  have exec: "ChangeARStatusCommand_execute ''u0'' 1738893600000 (overdueStatusDTO exampleOverdueAR)
      exampleSweepWorld = (Inr (), examplePromotedWorld)"
    using dto found
    by (simp add: ChangeARStatusCommand_execute_def)
       (simp add: exampleOverdueAR_def exampleAR_def append_def insertOne_event_def
          exampleSweepWorld_def exampleOverdueCreated_def exampleCreated_def
          statusChangedEvent_def updateStatus_def
          examplePromotedWorld_def)
  show ?thesis
    by (simp add: updateOverdueStatus_def sweep_findOverdue andThen_def
          updateOverdueStatus_one_def u0 exec)
qed

lemma promoted_findOverdue:
  "findOverdue tzPhnomPenh 1738861200000 examplePromotedWorld = []"
  by (simp add: findOverdue_def examplePromotedWorld_def)

lemma promoted_checkOverdueARs:
  "checkOverdueARs tzPhnomPenh exampleUuid 1738893600000 1738861200000 (1, examplePromotedWorld)
     = (Inr (), (1, examplePromotedWorld))"
  by (simp add: checkOverdueARs_def promoted_findOverdue)

lemma promoted_checkDueARs:
  "checkDueARs tzPhnomPenh exampleUuid 1738893600000 1738861200000 (1, examplePromotedWorld)
     = (Inr (), (1, examplePromotedWorld))"
  by (simp add: checkDueARs_def findByDueDateAndStatus_def examplePromotedWorld_def)

lemma promoted_checkPreAlerts:
  "checkPreAlerts tzPhnomPenh days exampleUuid 1738893600000 1738861200000 (1, examplePromotedWorld)
     = (Inr (), (1, examplePromotedWorld))"
  by (simp add: checkPreAlerts_def findByDueDateAndStatus_def examplePromotedWorld_def)


lemma forEach_keeps:
  assumes "\<And>x s. g (snd (f x s)) = g s"
  shows "g (snd (forEach f xs s)) = g s"
proof (induction xs arbitrary: s)
  case Nil
  show ?case by simp
next
  case (Cons x xs)
  show ?case
  proof (cases "f x s")
    case (Pair r s')
    then have s': "g s' = g s"
      using assms [of x s] by simp
    show ?thesis
    proof (cases r)
      case (Inl e)
      with Pair s' show ?thesis by (simp add: andThen_def)
    next
      case (Inr u)
      with Pair s' Cons.IH [of s'] show ?thesis by (simp add: andThen_def)
    qed
  qed
qed

lemma andThen_Inr: "andThen (Inr u, s) f = f s"
  by (simp add: andThen_def)

lemma alert_queue_save: "alert_queue (snd (save state w)) = alert_queue w"
  by (auto simp: save_def split: option.splits)

lemma alert_queue_create:
  "alert_queue (snd (CreateARCommand_create new_ar_id ev w)) = alert_queue w"
proof -
  obtain w1 where app: "append None ev w = (Inr (), w1)"
    using append_None_fst [of ev w] by (cases "append None ev w") simp
  have q1: "alert_queue w1 = alert_queue w"
    using alert_queue_append [of None ev w] app by simp
  show ?thesis
  proof (cases "replayEvents [ev]")
    case (Inl e)
    then show ?thesis
      using app q1 by (simp add: CreateARCommand_create_def CreateARCommand_save_def)
  next
    case (Inr state)
    then show ?thesis
      using app q1 alert_queue_save [of state w1]
      by (auto simp: CreateARCommand_create_def CreateARCommand_save_def
            split: prod.splits sum.splits)
  qed
qed

lemma alert_queue_CreateAR:
  "alert_queue (snd (CreateARCommand_execute new_ar_id new_event_id now dto w)) = alert_queue w"
  by (simp add: CreateARCommand_execute_def alert_queue_create split: option.splits)

lemma alert_queue_ensure_month:
  "alert_queue (snd (snd (snd (ensureFutureARs_month uuid now today h template dueDate k st))))
     = alert_queue (snd (snd st))"
  using alert_queue_CreateAR [of "uuid (fst (snd st))" "uuid (fst (snd st) + 1)" now
      "nextMonthARData template (Some today) dueDate" "snd (snd st)"]
  by (auto simp: ensureFutureARs_month_def ensureFutureARs_create_def
        split: option.splits prod.splits sum.splits)

lemma alert_queue_ensure_home:
  "alert_queue (snd (snd (ensureFutureARs_home tz uuid now today months allARs h s)))
     = alert_queue (snd s)"
proof -
  have months: "alert_queue (snd (snd (snd (ensureFutureARs_months tz uuid now today months h t nd st))))
      = alert_queue (snd (snd st))" for t nd st
    unfolding ensureFutureARs_months_def
    by (rule forEach_keeps [where g = "\<lambda>st. alert_queue (snd (snd st))"])
       (rule alert_queue_ensure_month)
  show ?thesis
  proof (cases "filter (\<lambda>ar. current_status ar \<noteq> WRITTEN_OFF) (filter (\<lambda>ar. home_id ar = h) allARs)")
    case Nil
    then show ?thesis by (simp add: ensureFutureARs_home_def)
  next
    case (Cons first others)
    let ?r = "ensureFutureARs_months tz uuid now today months h (latestDue first others)
                (getNextDueDate tz (due_date (latestDue first others)) today)
                (map (\<lambda>ar. dueKey tz (due_date ar)) (filter (\<lambda>ar. home_id ar = h) allARs), s)"
    have "ensureFutureARs_home tz uuid now today months allARs h s = (fst ?r, snd (snd ?r))"
      using Cons by (simp add: ensureFutureARs_home_def split: prod.splits)
    then show ?thesis
      using months [of "latestDue first others"
          "getNextDueDate tz (due_date (latestDue first others)) today"
          "(map (\<lambda>ar. dueKey tz (due_date ar)) (filter (\<lambda>ar. home_id ar = h) allARs), s)"]
      by simp
  qed
qed

lemma alert_queue_ensureFutureARs:
  "alert_queue (snd (snd (ensureFutureARs tz months uuid now today s))) = alert_queue (snd s)"
proof (cases "months \<le> 0")
  case True
  then show ?thesis by (simp add: ensureFutureARs_def)
next
  case False
  have "alert_queue (snd (snd (forEach (ensureFutureARs_home tz uuid now today months (findAll (snd s)))
            (homes_of (findAll (snd s))) s))) = alert_queue (snd s)"
    by (rule forEach_keeps [where g = "\<lambda>s. alert_queue (snd s)"])
       (rule alert_queue_ensure_home)
  with False show ?thesis by (simp add: ensureFutureARs_def)
qed

lemma sweep_run_steps:
  "run_steps tzPhnomPenh cfg exampleUuid 1738893600000 1738861200000 (0, exampleSweepWorld) =
     ensureFutureARs tzPhnomPenh (futureArMonthsAhead cfg) exampleUuid 1738893600000 1738861200000
       (1, examplePromotedWorld)"
  by (simp only: run_steps_def sweep_promote promoted_checkDueARs promoted_checkOverdueARs
        promoted_checkPreAlerts andThen_Inr)

lemma sweep_run_alert_queue:
  "alert_queue (snd (run tzPhnomPenh cfg exampleUuid 1738893600000 exampleSweepWorld)) = []"
proof -
  have "alert_queue (snd (snd (ensureFutureARs tzPhnomPenh (futureArMonthsAhead cfg) exampleUuid
      1738893600000 1738861200000 (1, examplePromotedWorld)))) = alert_queue examplePromotedWorld"
    using alert_queue_ensureFutureARs [of tzPhnomPenh "futureArMonthsAhead cfg" exampleUuid
        1738893600000 1738861200000 "(1, examplePromotedWorld)"]
    by (simp only: snd_conv)
  then show ?thesis
    by (simp only: run_def sweep_today sweep_run_steps split_beta snd_conv)
       (simp add: examplePromotedWorld_def)
qed

lemma exampleUuid_values:
  "exampleUuid 0 = ''u0''" "exampleUuid 1 = ''u1''" "exampleUuid 2 = ''u2''"
  "exampleUuid 3 = ''u3''" "exampleUuid 4 = ''u4''" "exampleUuid 5 = ''u5''"
  by (simp_all add: exampleUuid_def digits.simps digit_char_def)

lemma queueAlert_eq:
  "queueAlert new_alert_id new_event_id now params w =
     (Inr new_alert_id,
      snd (append None (queueAlert_event new_alert_id new_event_id now params)
             (saveAlert (queueAlert_alert new_alert_id now params) w)))"
  using append_None_fst [of "queueAlert_event new_alert_id new_event_id now params"
      "saveAlert (queueAlert_alert new_alert_id now params) w"]
  by (auto simp: queueAlert_def split: prod.splits sum.splits)

lemma alertSummary_queued:
  "alertSummary (queueAlert_alert i now params) =
     (i, qa_alert_type params, qa_target_type params, qa_delivery_chat_id params, None)"
  by (simp add: alertSummary_def queueAlert_alert_def)

lemma sweep_alert_step_alone:
  "map alertSummary
     (alert_queue (snd (snd (checkOverdueARs tzPhnomPenh exampleUuid 1738893600000 1738861200000
                               (0, exampleSweepWorld)))))
   = [(''u0'', OVERDUE_ALERT, CUSTOMER, ''c1'', None), (''u2'', ESCALATION, CUSTOMER, ''c1'', None),
      (''u4'', ESCALATION, MANAGER, ''m1'', None)]"
proof -
  have chats: "customer_chat_id exampleOverdueAR = Some ''c1''" "manager_chat_id exampleOverdueAR = Some ''m1''"
    by (simp_all add: exampleOverdueAR_def exampleAR_def)
  have saved: "alert_queue (saveAlert a w) = alert_queue w @ [a]"
    if "alert_id a \<notin> set (map alert_id (alert_queue w))" for a :: Alert and w :: world
  proof -
    from that have "\<not> list_ex (\<lambda>d. alert_id d = alert_id a) (alert_queue w)"
      by (force simp: list_ex_iff image_iff)
    then show ?thesis
      by (simp add: saveAlert_def)
  qed
  have ids: "alert_id (queueAlert_alert i now p) = i" for i now p
    by (simp add: queueAlert_alert_def)
  show ?thesis
    unfolding checkOverdueARs_def snd_conv sweep_findOverdue
    by (simp add: checkOverdueARs_one_def
          checkOverdueARs_escalate_def sweep_daysOverdue ifCond_def ifChat_def chats
          queueAlert_sweep_def queueAlert_eq andThen_def alert_queue_append
          exampleUuid_def digits.simps digit_char_def saved ids alertSummary_queued
          overdueCustomerParams_def escalationCustomerParams_def escalationManagerParams_def
          exampleSweepWorld_def)
qed

lemma promoted_updateOverdueStatus:
  "updateOverdueStatus tzPhnomPenh exampleUuid 1738893600000 1738861200000 (0, examplePromotedWorld)
     = (Inr (), (0, examplePromotedWorld))"
  by (simp add: updateOverdueStatus_def promoted_findOverdue)

lemma promoted_steps_from_0:
  "checkDueARs tzPhnomPenh exampleUuid 1738893600000 1738861200000 (0, examplePromotedWorld)
     = (Inr (), (0, examplePromotedWorld))"
  "checkOverdueARs tzPhnomPenh exampleUuid 1738893600000 1738861200000 (0, examplePromotedWorld)
     = (Inr (), (0, examplePromotedWorld))"
  "checkPreAlerts tzPhnomPenh days exampleUuid 1738893600000 1738861200000 (0, examplePromotedWorld)
     = (Inr (), (0, examplePromotedWorld))"
proof -
  show "checkDueARs tzPhnomPenh exampleUuid 1738893600000 1738861200000 (0, examplePromotedWorld)
     = (Inr (), (0, examplePromotedWorld))"
    by (simp add: checkDueARs_def findByDueDateAndStatus_def examplePromotedWorld_def)
  show "checkOverdueARs tzPhnomPenh exampleUuid 1738893600000 1738861200000 (0, examplePromotedWorld)
     = (Inr (), (0, examplePromotedWorld))"
    by (simp add: checkOverdueARs_def promoted_findOverdue)
  show "checkPreAlerts tzPhnomPenh days exampleUuid 1738893600000 1738861200000 (0, examplePromotedWorld)
     = (Inr (), (0, examplePromotedWorld))"
    by (simp add: checkPreAlerts_def findByDueDateAndStatus_def examplePromotedWorld_def)
qed

lemma promoted_run_alert_queue:
  "alert_queue (snd (run tzPhnomPenh cfg exampleUuid 1738893600000 examplePromotedWorld)) = []"
proof -
  have steps: "run_steps tzPhnomPenh cfg exampleUuid 1738893600000 1738861200000 (0, examplePromotedWorld) =
      ensureFutureARs tzPhnomPenh (futureArMonthsAhead cfg) exampleUuid 1738893600000 1738861200000
        (0, examplePromotedWorld)"
    by (simp only: run_steps_def promoted_updateOverdueStatus promoted_steps_from_0 andThen_Inr)
  have "alert_queue (snd (snd (ensureFutureARs tzPhnomPenh (futureArMonthsAhead cfg) exampleUuid
      1738893600000 1738861200000 (0, examplePromotedWorld)))) = alert_queue examplePromotedWorld"
    using alert_queue_ensureFutureARs [of tzPhnomPenh "futureArMonthsAhead cfg" exampleUuid
        1738893600000 1738861200000 "(0, examplePromotedWorld)"]
    by (simp only: snd_conv)
  then show ?thesis
    by (simp only: run_def sweep_today steps split_beta snd_conv)
       (simp add: examplePromotedWorld_def)
qed

text \<open>The example snapshots are the replay of their events.\<close>

lemma example_snapshots_replayed:
  "replayEvents [exampleCreated] = Inr exampleAR"
  "replayEvents [exampleOverdueCreated] = Inr exampleOverdueAR"
  by (simp_all add: replayEvents_def initializeFromCreatedEvent_def exampleCreated_def
        exampleOverdueCreated_def exampleAR_def exampleOverdueAR_def)

text \<open>
  C3, evaluated on the code. AR a1 is \<open>PENDING\<close>, has a customer and a manager address and
  is exactly 7 days overdue when the run starts. The run promotes it to \<open>OVERDUE\<close> first.
  \<open>checkOverdueARs\<close> then asks \<open>findOverdue\<close> again, which returns \<open>PENDING\<close> ARs only:
  it finds nothing and enqueues nothing, and the queue is empty when the run ends, for
  every configuration; a run on the store with the AR already promoted ends with an empty
  queue as well. On the store as it was before the promotion the same step enqueues
  one \<open>OVERDUE\<close> alert, to the customer only, and an \<open>ESCALATION\<close> alert to the customer
  and to the manager, each stored without its deduplication key.
\<close>

theorem sweep_promotion_hides_overdue_alerts:
  "daysOverdue (setHours0 tzPhnomPenh 1738893600000) exampleOverdueAR = 7
   \<and> findOverdue tzPhnomPenh (setHours0 tzPhnomPenh 1738893600000) exampleSweepWorld
       = [exampleOverdueAR]
   \<and> updateOverdueStatus tzPhnomPenh exampleUuid 1738893600000
        (setHours0 tzPhnomPenh 1738893600000) (0, exampleSweepWorld)
       = (Inr (), (1, examplePromotedWorld))
   \<and> map current_status (ar_state examplePromotedWorld) = [OVERDUE]
   \<and> findOverdue tzPhnomPenh (setHours0 tzPhnomPenh 1738893600000) examplePromotedWorld = []
   \<and> checkOverdueARs tzPhnomPenh exampleUuid 1738893600000
        (setHours0 tzPhnomPenh 1738893600000) (1, examplePromotedWorld)
       = (Inr (), (1, examplePromotedWorld))
   \<and> alert_queue (snd (run tzPhnomPenh exampleConfig exampleUuid 1738893600000 exampleSweepWorld))
       = []
   \<and> alert_queue (snd (run tzPhnomPenh exampleConfig exampleUuid 1738893600000 examplePromotedWorld))
       = []
   \<and> map alertSummary
        (alert_queue (snd (snd (checkOverdueARs tzPhnomPenh exampleUuid 1738893600000
                                  (setHours0 tzPhnomPenh 1738893600000) (0, exampleSweepWorld)))))
       = [(''u0'', OVERDUE_ALERT, CUSTOMER, ''c1'', None),
          (''u2'', ESCALATION, CUSTOMER, ''c1'', None),
          (''u4'', ESCALATION, MANAGER, ''m1'', None)]"
  unfolding sweep_today
  by (simp only: sweep_daysOverdue sweep_findOverdue sweep_promote promoted_findOverdue
        promoted_checkOverdueARs sweep_run_alert_queue promoted_run_alert_queue
        sweep_alert_step_alone simp_thms)
     (simp add: examplePromotedWorld_def)

end
